theory Spec2Isabelle
  imports Main "HOL-Library.Word"
begin

section \<open>The Resource class of lib/Resource.js\<close>

text \<open>
  A shallow embedding of the class \<^verbatim>\<open>Resource\<close>. JavaScript objects that are shared by
  reference live in an explicit store: resource objects, readable streams, stream factories
  (\<^verbatim>\<open>createStream\<close> callbacks), promises and source handles are addresses (natural numbers)
  into the fields of a \<open>world\<close>. A method takes the address of \<^verbatim>\<open>this\<close> and the world and
  returns its result with the new world. A \<^verbatim>\<open>throw\<close> is the value \<open>Inl\<close> of an error; an
  \<^verbatim>\<open>async\<close> method returns a value of type \<open>async\<close>. A method keeps its name; a private
  method \<^verbatim>\<open>_getStream\<close> is \<open>priv_getStream\<close>, and likewise for the others.
\<close>

subsection \<open>Data\<close>

type_synonym bytes = "8 word list"

text \<open>The errors thrown by the class; each carries what its message interpolates.\<close>

datatype error =
    MissingPath
  | ConflictingContent
  | ContentDrained string
  | NoContent string
  | StreamDrained string
  | ProjectAlreadyAssigned string
  | TypeError
  | StreamError nat

text \<open>
  A project is used through \<^verbatim>\<open>project.getName()\<close> and through its conversion to a string
  in a template literal (\<^verbatim>\<open>${this.__project}\<close>).
\<close>

record project =
  getName :: string
  toString :: string

record statInfo =
  isFile :: bool
  isDirectory :: bool
  isBlockDevice :: bool
  isCharacterDevice :: bool
  isSymbolicLink :: bool
  isFIFO :: bool
  isSocket :: bool
  atimeMs :: nat
  mtimeMs :: nat
  ctimeMs :: nat
  birthtimeMs :: nat
  atime :: nat
  mtime :: nat
  ctime :: nat
  birthtime :: nat

text \<open>The parameter object of the constructor; \<open>None\<close> is a property left \<^verbatim>\<open>undefined\<close>.\<close>

record params =
  p_path :: "string option"
  p_statInfo :: "statInfo option"
  p_buffer :: "bytes option"
  p_string :: "string option"
  p_createStream :: "nat option"
  p_stream :: "nat option"
  p_project :: "project option"
  p_source :: "nat option"

text \<open>The fields of a resource object (\<^verbatim>\<open>this._path\<close> is \<open>r_path\<close>, and so on).\<close>

record resource =
  r_path :: string
  r_name :: string
  r_source :: "nat option"
  r_project :: "project option"
  r_statInfo :: statInfo
  r_createStream :: "nat option"
  r_stream :: "nat option"
  r_buffer :: "bytes option"
  r_contentDrained :: bool
  r_streamDrained :: bool
  r_buffering :: "nat option"
  r_collections :: "string list"

text \<open>
  A readable stream of the environment: the chunks it has still to emit as \<^verbatim>\<open>data\<close> events,
  how it finishes after them (\<^verbatim>\<open>end\<close>, \<^verbatim>\<open>error\<close>, or never), whether it has finished, and the
  handlers that \<^verbatim>\<open>_getBufferFromStream\<close> has registered on it. A registered handler triple
  is the closure of one call: the resource \<^verbatim>\<open>this\<close>, the promise it settles, and its local
  array \<^verbatim>\<open>buffers\<close>.
\<close>

datatype ending = Ends | Fails nat | Hangs

record listener =
  l_this :: nat
  l_promise :: nat
  l_buffers :: "bytes list"

record rstream =
  s_chunks :: "bytes list"
  s_ending :: ending
  s_finished :: bool
  s_listeners :: "listener list"

text \<open>
  A \<^verbatim>\<open>createStream\<close> callback: its \<open>n\<close>-th invocation returns a new stream that emits the
  chunks \<open>f_chunks n\<close> and finishes as \<open>f_ending n\<close>; \<open>f_calls\<close> counts the invocations.
\<close>

record factory =
  f_chunks :: "nat \<Rightarrow> bytes list"
  f_ending :: "nat \<Rightarrow> ending"
  f_calls :: nat

datatype promise = Pending | Resolved bytes | Rejected error

text \<open>
  The store. \<open>sources w a\<close> is the truth value of \<^verbatim>\<open>source.modified\<close> of the source handle
  at address \<open>a\<close>; \<open>now\<close> is the clock read by \<^verbatim>\<open>new Date()\<close>; \<open>n_resources\<close>, \<open>n_streams\<close>
  and \<open>n_promises\<close> are the next free addresses.
\<close>

record world =
  resources :: "nat \<Rightarrow> resource"
  n_resources :: nat
  streams :: "nat \<Rightarrow> rstream"
  n_streams :: nat
  factories :: "nat \<Rightarrow> factory"
  promises :: "nat \<Rightarrow> promise"
  n_promises :: nat
  sources :: "nat \<Rightarrow> bool"
  now :: nat

text \<open>
  The functions of the runtime that the class calls: \<^verbatim>\<open>Buffer.from(string, "utf8")\<close>,
  \<^verbatim>\<open>buffer.toString()\<close> and \<^verbatim>\<open>path.posix.basename\<close>.
\<close>

record runtime =
  buffer_from_utf8 :: "string \<Rightarrow> bytes"
  buffer_toString :: "bytes \<Rightarrow> string"
  posix_basename :: "string \<Rightarrow> string"

text \<open>
  The result of an \<^verbatim>\<open>async\<close> method: a value, a rejection, or a wait for the promise at an
  address, with the code that runs on the promise's value once it is resolved.
\<close>

datatype 'a async =
    Return 'a
  | Throw error
  | Await nat "bytes \<Rightarrow> world \<Rightarrow> (error + 'a) \<times> world"

subsection \<open>Truthiness\<close>

text \<open>
  JavaScript truthiness of an optional object (a buffer, a stream, a function, a project, a
  source handle): only \<^verbatim>\<open>undefined\<close> and \<^verbatim>\<open>null\<close> are falsy. Of an optional string:
  \<^verbatim>\<open>undefined\<close> and \<^verbatim>\<open>""\<close> are falsy.
\<close>

definition truthy :: "'a option \<Rightarrow> bool" where
  "truthy x = (case x of None \<Rightarrow> False | Some _ \<Rightarrow> True)"

definition truthy_string :: "string option \<Rightarrow> bool" where
  "truthy_string s = (case s of None \<Rightarrow> False | Some x \<Rightarrow> x \<noteq> [])"

subsection \<open>Setting content\<close>

definition setBuffer :: "nat \<Rightarrow> bytes \<Rightarrow> world \<Rightarrow> world" where
  "setBuffer this buffer w =
    (let w1 = (case r_source (resources w this) of
                 Some src \<Rightarrow>
                   if \<not> sources w src then w\<lparr>sources := (sources w)(src := True)\<rparr> else w
               | None \<Rightarrow> w)
     in w1\<lparr>resources := (resources w1)(this := (resources w1 this)
           \<lparr>r_createStream := None, r_stream := None, r_buffer := Some buffer,
            r_contentDrained := False, r_streamDrained := False\<rparr>)\<rparr>)"

definition setString :: "runtime \<Rightarrow> nat \<Rightarrow> string \<Rightarrow> world \<Rightarrow> world" where
  "setString rt this str w = setBuffer this (buffer_from_utf8 rt str) w"

text \<open>The argument of \<^verbatim>\<open>setStream\<close>: a readable stream, or a function (a factory).\<close>

datatype stream_arg = AStream nat | AFunction nat

definition setStream :: "nat \<Rightarrow> stream_arg \<Rightarrow> world \<Rightarrow> world" where
  "setStream this arg w =
    (let w1 = (case r_source (resources w this) of
                 Some src \<Rightarrow>
                   if \<not> sources w src then w\<lparr>sources := (sources w)(src := True)\<rparr> else w
               | None \<Rightarrow> w);
         r1 = (resources w1 this)\<lparr>r_buffer := None\<rparr>;
         r2 = (case arg of
                 AFunction f \<Rightarrow> r1\<lparr>r_createStream := Some f, r_stream := None\<rparr>
               | AStream s \<Rightarrow> r1\<lparr>r_stream := Some s, r_createStream := None\<rparr>)
     in w1\<lparr>resources := (resources w1)(this :=
           r2\<lparr>r_contentDrained := False, r_streamDrained := False\<rparr>)\<rparr>)"

subsection \<open>The constructor\<close>


definition defaultStatInfo :: "world \<Rightarrow> statInfo" where
  "defaultStatInfo w =
    \<lparr>isFile = True, isDirectory = False, isBlockDevice = False, isCharacterDevice = False,
     isSymbolicLink = False, isFIFO = False, isSocket = False,
     atimeMs = now w, mtimeMs = now w, ctimeMs = now w, birthtimeMs = now w,
     atime = now w, mtime = now w, ctime = now w, birthtime = now w\<rparr>"

definition blank :: resource where
  "blank =
    \<lparr>r_path = [], r_name = [], r_source = None, r_project = None,
     r_statInfo = \<lparr>isFile = False, isDirectory = False, isBlockDevice = False,
       isCharacterDevice = False, isSymbolicLink = False, isFIFO = False, isSocket = False,
       atimeMs = 0, mtimeMs = 0, ctimeMs = 0, birthtimeMs = 0,
       atime = 0, mtime = 0, ctime = 0, birthtime = 0\<rparr>,
     r_createStream = None, r_stream = None, r_buffer = None,
     r_contentDrained = False, r_streamDrained = False, r_buffering = None,
     r_collections = []\<rparr>"

definition conflicting :: "params \<Rightarrow> bool" where
  "conflicting p =
    (let buffer = truthy (p_buffer p); string = truthy_string (p_string p);
         createStream = truthy (p_createStream p); stream = truthy (p_stream p)
     in buffer \<and> createStream \<or> buffer \<and> string \<or> string \<and> createStream \<or>
        buffer \<and> stream \<or> string \<and> stream \<or> createStream \<and> stream)"

text \<open>
  \<^verbatim>\<open>new Resource(parameters)\<close>: the address of the new object, or the error thrown. The new
  object starts as \<open>blank\<close> (every field \<^verbatim>\<open>undefined\<close>) and is filled in the order of the
  constructor's statements.
\<close>

definition constructor :: "runtime \<Rightarrow> params \<Rightarrow> world \<Rightarrow> (error + nat) \<times> world" where
  "constructor rt p w =
    (if \<not> truthy_string (p_path p) then (Inl MissingPath, w)
     else if conflicting p then (Inl ConflictingContent, w)
     else
       let this = n_resources w;
           path = the (p_path p);
           w1 = w\<lparr>n_resources := Suc this,
                  resources := (resources w)(this := blank
                    \<lparr>r_path := path, r_name := posix_basename rt path,
                     r_source := p_source p\<rparr>)\<rparr>;
           w2 = (case p_source p of
                   Some src \<Rightarrow> w1\<lparr>sources := (sources w1)(src := False)\<rparr>
                 | None \<Rightarrow> w1);
           w3 = w2\<lparr>resources := (resources w2)(this := (resources w2 this)
                  \<lparr>r_project := p_project p,
                   r_statInfo := (case p_statInfo p of
                                    Some st \<Rightarrow> st | None \<Rightarrow> defaultStatInfo w2)\<rparr>)\<rparr>;
           w4 = (case p_createStream p of
                   Some f \<Rightarrow> w3\<lparr>resources := (resources w3)(this :=
                                (resources w3 this)\<lparr>r_createStream := Some f\<rparr>)\<rparr>
                 | None \<Rightarrow>
                     (case p_stream p of
                        Some s \<Rightarrow> w3\<lparr>resources := (resources w3)(this :=
                                     (resources w3 this)\<lparr>r_stream := Some s\<rparr>)\<rparr>
                      | None \<Rightarrow>
                          (case p_buffer p of
                             Some b \<Rightarrow> setBuffer this b w3
                           | None \<Rightarrow>
                               (case p_string p of
                                  Some str \<Rightarrow> setString rt this str w3
                                | None \<Rightarrow> w3))))
       in (Inr this,
           w4\<lparr>resources := (resources w4)(this :=
                (resources w4 this)\<lparr>r_collections := []\<rparr>)\<rparr>))"

subsection \<open>Promises\<close>

text \<open>A promise is settled once: \<^verbatim>\<open>resolve\<close> and \<^verbatim>\<open>reject\<close> on a settled promise do nothing.\<close>

definition resolve :: "nat \<Rightarrow> bytes \<Rightarrow> world \<Rightarrow> world" where
  "resolve p v w =
    (if promises w p = Pending then w\<lparr>promises := (promises w)(p := Resolved v)\<rparr> else w)"

definition reject :: "nat \<Rightarrow> error \<Rightarrow> world \<Rightarrow> world" where
  "reject p e w =
    (if promises w p = Pending then w\<lparr>promises := (promises w)(p := Rejected e)\<rparr> else w)"

text \<open>
  Resuming an \<^verbatim>\<open>async\<close> method that waits for a promise: nothing happens while the promise
  is pending; the rest of the method runs on its value once it is resolved; a rejection is
  passed on.
\<close>

definition settle :: "'a async \<Rightarrow> world \<Rightarrow> 'a async \<times> world" where
  "settle a w =
    (case a of
       Await p k \<Rightarrow>
         (case promises w p of
            Pending \<Rightarrow> (a, w)
          | Rejected e \<Rightarrow> (Throw e, w)
          | Resolved v \<Rightarrow>
              (case k v w of
                 (Inl e, w') \<Rightarrow> (Throw e, w')
               | (Inr x, w') \<Rightarrow> (Return x, w')))
     | _ \<Rightarrow> (a, w))"

subsection \<open>Reading content\<close>

text \<open>
  \<^verbatim>\<open>_getStream()\<close>: the stream returned is \<open>None\<close> when \<^verbatim>\<open>this._stream\<close> is \<^verbatim>\<open>null\<close> or
  \<^verbatim>\<open>undefined\<close>. Invoking the factory allocates the stream of its next invocation.
\<close>

definition priv_getStream :: "nat \<Rightarrow> world \<Rightarrow> (error + nat option) \<times> world" where
  "priv_getStream this w =
    (let r = resources w this in
     if r_streamDrained r then (Inl (StreamDrained (r_path r)), w)
     else
       (case r_createStream r of
          Some f \<Rightarrow>
            (let fac = factories w f; s = n_streams w; n = f_calls fac
             in (Inr (Some s),
                 w\<lparr>n_streams := Suc s,
                   streams := (streams w)(s :=
                     \<lparr>s_chunks = f_chunks fac n, s_ending = f_ending fac n,
                      s_finished = False, s_listeners = []\<rparr>),
                   factories := (factories w)(f := fac\<lparr>f_calls := Suc n\<rparr>)\<rparr>))
        | None \<Rightarrow>
            (Inr (r_stream r),
             w\<lparr>resources := (resources w)(this := r\<lparr>r_streamDrained := True\<rparr>)\<rparr>)))"

text \<open>
  \<^verbatim>\<open>_getBufferFromStream()\<close> up to the return of the promise: the executor of the new promise
  runs at once; an exception in it rejects the promise. Registering the three handlers is
  adding a listener with an empty \<^verbatim>\<open>buffers\<close> array to the stream. The handlers themselves
  are \<open>on_data\<close>, \<open>on_error\<close> and \<open>on_end\<close> below.
\<close>

definition priv_getBufferFromStream :: "nat \<Rightarrow> world \<Rightarrow> nat \<times> world" where
  "priv_getBufferFromStream this w =
    (case r_buffering (resources w this) of
       Some p \<Rightarrow> (p, w)
     | None \<Rightarrow>
         (let p = n_promises w;
              w1 = w\<lparr>n_promises := Suc p, promises := (promises w)(p := Pending)\<rparr>;
              w3 = (case priv_getStream this w1 of
                      (Inl e, w2) \<Rightarrow> reject p e w2
                    | (Inr None, w2) \<Rightarrow> reject p TypeError w2
                    | (Inr (Some s), w2) \<Rightarrow>
                        w2\<lparr>streams := (streams w2)(s := (streams w2 s)
                             \<lparr>s_listeners := s_listeners (streams w2 s) @
                                [\<lparr>l_this = this, l_promise = p, l_buffers = []\<rparr>]\<rparr>)\<rparr>)
          in (p, w3\<lparr>resources := (resources w3)(this :=
                     (resources w3 this)\<lparr>r_buffering := Some p\<rparr>)\<rparr>)))"

definition on_data :: "bytes \<Rightarrow> listener \<Rightarrow> listener" where
  "on_data data l = l\<lparr>l_buffers := l_buffers l @ [data]\<rparr>"

definition on_error :: "error \<Rightarrow> listener \<Rightarrow> world \<Rightarrow> world" where
  "on_error err l w = reject (l_promise l) err w"

definition on_end :: "listener \<Rightarrow> world \<Rightarrow> world" where
  "on_end l w =
    (let this = l_this l;
         buffer = concat (l_buffers l);
         src = r_source (resources w this);
         modified = (case src of Some a \<Rightarrow> Some (sources w a) | None \<Rightarrow> None);
         w1 = setBuffer this buffer w;
         w2 = (case src of
                 Some a \<Rightarrow> w1\<lparr>sources := (sources w1)(a := the modified)\<rparr>
               | None \<Rightarrow> w1);
         w3 = w2\<lparr>resources := (resources w2)(this :=
                (resources w2 this)\<lparr>r_buffering := None\<rparr>)\<rparr>
     in resolve (l_promise l) buffer w3)"

text \<open>
  The environment: the stream at address \<open>s\<close> emits its next event, which runs the handlers
  registered on it. A stream that has finished, or that hangs, emits nothing.
\<close>

definition emit :: "nat \<Rightarrow> world \<Rightarrow> world" where
  "emit s w =
    (let st = streams w s in
     if s_finished st then w
     else
       (case s_chunks st of
          c # cs \<Rightarrow>
            w\<lparr>streams := (streams w)(s :=
                st\<lparr>s_chunks := cs, s_listeners := map (on_data c) (s_listeners st)\<rparr>)\<rparr>
        | [] \<Rightarrow>
            (case s_ending st of
               Hangs \<Rightarrow> w
             | Fails e \<Rightarrow>
                 fold (on_error (StreamError e)) (s_listeners st)
                   (w\<lparr>streams := (streams w)(s := st\<lparr>s_finished := True\<rparr>)\<rparr>)
             | Ends \<Rightarrow>
                 fold on_end (s_listeners st)
                   (w\<lparr>streams := (streams w)(s := st\<lparr>s_finished := True\<rparr>)\<rparr>))))"

text \<open>The stream emits all the events it has: its remaining chunks and its ending.\<close>

definition emit_all :: "nat \<Rightarrow> world \<Rightarrow> world" where
  "emit_all s w = (emit s ^^ Suc (length (s_chunks (streams w s)))) w"

definition getBuffer :: "nat \<Rightarrow> world \<Rightarrow> bytes async \<times> world" where
  "getBuffer this w =
    (let r = resources w this in
     if r_contentDrained r then (Throw (ContentDrained (r_path r)), w)
     else
       (case r_buffer r of
          Some b \<Rightarrow> (Return b, w)
        | None \<Rightarrow>
            if truthy (r_createStream r) \<or> truthy (r_stream r) then
              (case priv_getBufferFromStream this w of
                 (p, w') \<Rightarrow> (Await p (\<lambda>buffer w''. (Inr buffer, w'')), w'))
            else (Throw (NoContent (r_path r)), w)))"

definition getString :: "runtime \<Rightarrow> nat \<Rightarrow> world \<Rightarrow> string async \<times> world" where
  "getString rt this w =
    (let r = resources w this in
     if r_contentDrained r then (Throw (ContentDrained (r_path r)), w)
     else
       (case getBuffer this w of
          (Return buffer, w') \<Rightarrow> (Return (buffer_toString rt buffer), w')
        | (Throw e, w') \<Rightarrow> (Throw e, w')
        | (Await p k, w') \<Rightarrow>
            (Await p (\<lambda>v w''. case k v w'' of
                        (Inl e, w3) \<Rightarrow> (Inl e, w3)
                      | (Inr buffer, w3) \<Rightarrow> (Inr (buffer_toString rt buffer), w3)), w')))"

text \<open>
  \<^verbatim>\<open>getStream()\<close>: for a buffer, the new \<^verbatim>\<open>PassThrough\<close> stream has the buffer written to it
  and is ended.
\<close>

definition getStream :: "nat \<Rightarrow> world \<Rightarrow> (error + nat) \<times> world" where
  "getStream this w =
    (let r = resources w this in
     if r_contentDrained r then (Inl (ContentDrained (r_path r)), w)
     else
       (case (case r_buffer r of
                Some b \<Rightarrow>
                  (let s = n_streams w
                   in (Inr (Some s),
                       w\<lparr>n_streams := Suc s,
                         streams := (streams w)(s :=
                           \<lparr>s_chunks = [b], s_ending = Ends,
                            s_finished = False, s_listeners = []\<rparr>)\<rparr>))
              | None \<Rightarrow>
                  if truthy (r_createStream r) \<or> truthy (r_stream r)
                  then priv_getStream this w
                  else (Inr None, w)) of
          (Inl e, w1) \<Rightarrow> (Inl e, w1)
        | (Inr None, w1) \<Rightarrow> (Inl (NoContent (r_path r)), w1)
        | (Inr (Some contentStream), w1) \<Rightarrow>
            (Inr contentStream,
             w1\<lparr>resources := (resources w1)(this :=
                  (resources w1 this)\<lparr>r_contentDrained := True\<rparr>)\<rparr>)))"

definition getSize :: "nat \<Rightarrow> world \<Rightarrow> nat async \<times> world" where
  "getSize this w =
    (let r = resources w this in
     if \<not> truthy (r_buffer r) \<and> \<not> truthy (r_createStream r) \<and> \<not> truthy (r_stream r)
     then (Return 0, w)
     else
       (case getBuffer this w of
          (Return buffer, w') \<Rightarrow> (Return (length buffer), w')
        | (Throw e, w') \<Rightarrow> (Throw e, w')
        | (Await p k, w') \<Rightarrow>
            (Await p (\<lambda>v w''. case k v w'' of
                        (Inl e, w3) \<Rightarrow> (Inl e, w3)
                      | (Inr buffer, w3) \<Rightarrow> (Inr (length buffer), w3)), w')))"

subsection \<open>Path, collections, project\<close>

definition setPath :: "runtime \<Rightarrow> nat \<Rightarrow> string \<Rightarrow> world \<Rightarrow> world" where
  "setPath rt this path w =
    w\<lparr>resources := (resources w)(this :=
        (resources w this)\<lparr>r_path := path, r_name := posix_basename rt path\<rparr>)\<rparr>"

definition pushCollection :: "nat \<Rightarrow> string \<Rightarrow> world \<Rightarrow> world" where
  "pushCollection this name w =
    w\<lparr>resources := (resources w)(this :=
        (resources w this)\<lparr>r_collections := r_collections (resources w this) @ [name]\<rparr>)\<rparr>"

definition getProject :: "nat \<Rightarrow> world \<Rightarrow> project option" where
  "getProject this w = r_project (resources w this)"

definition setProject :: "nat \<Rightarrow> project \<Rightarrow> world \<Rightarrow> (error + unit) \<times> world" where
  "setProject this project w =
    (case r_project (resources w this) of
       Some existing \<Rightarrow>
         (Inl (ProjectAlreadyAssigned
            (''Unable to assign project '' @ getName project @ '' to resource '' @
             r_path (resources w this) @ '': '' @
             ''Resource is already associated to project '' @ toString existing)), w)
     | None \<Rightarrow>
         (Inr (), w\<lparr>resources := (resources w)(this :=
                    (resources w this)\<lparr>r_project := Some project\<rparr>)\<rparr>))"

definition hasProject :: "nat \<Rightarrow> world \<Rightarrow> bool" where
  "hasProject this w = (\<not> \<not> truthy (r_project (resources w this)))"

subsection \<open>Cloning\<close>

text \<open>
  \<^verbatim>\<open>_getCloneOptions()\<close>. The deep copy \<^verbatim>\<open>clone(this._statInfo)\<close> of a value is the value.
  For a resource with a stream, the options are complete once the promise of
  \<^verbatim>\<open>_getBufferFromStream()\<close> is resolved.
\<close>

definition priv_getCloneOptions :: "nat \<Rightarrow> world \<Rightarrow> params async \<times> world" where
  "priv_getCloneOptions this w =
    (let r = resources w this;
         options = \<lparr>p_path = Some (r_path r), p_statInfo = Some (r_statInfo r),
                    p_buffer = None, p_string = None, p_createStream = None,
                    p_stream = None, p_project = None, p_source = r_source r\<rparr>
     in case r_stream r of
          Some s \<Rightarrow>
            (case priv_getBufferFromStream this w of
               (p, w') \<Rightarrow>
                 (Await p (\<lambda>buffer w''. (Inr (options\<lparr>p_buffer := Some buffer\<rparr>), w'')), w'))
        | None \<Rightarrow>
            (case r_createStream r of
               Some f \<Rightarrow> (Return (options\<lparr>p_createStream := Some f\<rparr>), w)
             | None \<Rightarrow>
                 (case r_buffer r of
                    Some b \<Rightarrow> (Return (options\<lparr>p_buffer := Some b\<rparr>), w)
                  | None \<Rightarrow> (Return options, w))))"

text \<open>
  \<^verbatim>\<open>clone()\<close>: the constructor runs on the options once they are there. Options that are
  complete when \<^verbatim>\<open>_getCloneOptions()\<close> returns are used at once.
\<close>

definition clone :: "runtime \<Rightarrow> nat \<Rightarrow> world \<Rightarrow> nat async \<times> world" where
  "clone rt this w =
    (case priv_getCloneOptions this w of
       (Return options, w') \<Rightarrow>
         (case constructor rt options w' of
            (Inl e, w'') \<Rightarrow> (Throw e, w'')
          | (Inr c, w'') \<Rightarrow> (Return c, w''))
     | (Throw e, w') \<Rightarrow> (Throw e, w')
     | (Await p k, w') \<Rightarrow>
         (Await p (\<lambda>v w''. case k v w'' of
                     (Inl e, w3) \<Rightarrow> (Inl e, w3)
                   | (Inr options, w3) \<Rightarrow> constructor rt options w3), w'))"


subsection \<open>Auxiliary definitions for the statements\<close>

text \<open>
  The number of content parameters given to the constructor, that is, not left
  \<^verbatim>\<open>undefined\<close>.
\<close>

definition given_content :: "params \<Rightarrow> nat" where
  "given_content p =
    length (filter (\<lambda>b. b) [truthy (p_buffer p), truthy (p_string p),
                            truthy (p_createStream p), truthy (p_stream p)])"

text \<open>
  The state of a resource right after \<^verbatim>\<open>new Resource({path, stream})\<close> or \<^verbatim>\<open>setStream(stream)\<close>
  with a stream \<open>s\<close> that nobody has read yet and that will emit the chunks \<open>cs\<close> and end.
\<close>

definition stream_backed :: "nat \<Rightarrow> nat \<Rightarrow> bytes list \<Rightarrow> world \<Rightarrow> bool" where
  "stream_backed this s cs w =
    (r_stream (resources w this) = Some s \<and> r_createStream (resources w this) = None \<and>
     r_buffer (resources w this) = None \<and> \<not> r_contentDrained (resources w this) \<and>
     \<not> r_streamDrained (resources w this) \<and> r_buffering (resources w this) = None \<and>
     streams w s = \<lparr>s_chunks = cs, s_ending = Ends, s_finished = False, s_listeners = []\<rparr>)"

text \<open>
  The world while the promise \<open>p\<close> of \<^verbatim>\<open>_getBufferFromStream\<close> is pending for the resource
  \<open>this\<close> on the stream \<open>s\<close>, with the chunks \<open>bs\<close> received and \<open>cs\<close> still to come; and the
  world after the \<^verbatim>\<open>end\<close> event.
\<close>
definition buffering_world :: "nat \<Rightarrow> nat \<Rightarrow> nat \<Rightarrow> bytes list \<Rightarrow> bytes list \<Rightarrow> world \<Rightarrow> world" where
  "buffering_world this s p bs cs w =
    w\<lparr>promises := (promises w)(p := Pending),
      resources := (resources w)(this := (resources w this)\<lparr>r_buffering := Some p\<rparr>),
      streams := (streams w)(s :=
        \<lparr>s_chunks = cs, s_ending = Ends, s_finished = False,
         s_listeners = [\<lparr>l_this = this, l_promise = p, l_buffers = bs\<rparr>]\<rparr>)\<rparr>"

definition buffered_world :: "nat \<Rightarrow> nat \<Rightarrow> nat \<Rightarrow> bytes list \<Rightarrow> world \<Rightarrow> world" where
  "buffered_world this s p bs w =
    w\<lparr>promises := (promises w)(p := Resolved (concat bs)),
      resources := (resources w)(this := (resources w this)
        \<lparr>r_createStream := None, r_stream := None, r_buffer := Some (concat bs),
         r_contentDrained := False, r_streamDrained := False, r_buffering := None\<rparr>),
      streams := (streams w)(s :=
        \<lparr>s_chunks = [], s_ending = Ends, s_finished = True,
         s_listeners = [\<lparr>l_this = this, l_promise = p, l_buffers = bs\<rparr>]\<rparr>)\<rparr>"

text \<open>
  Concrete values for the examples: a runtime for ASCII strings, a world with three unread
  streams (the second one fails after its chunk) and factories, and the parameters of a
  resource \<^verbatim>\<open>/a.js\<close> without content.
\<close>

definition example_runtime :: runtime where
  "example_runtime =
    \<lparr>buffer_from_utf8 = map of_char, buffer_toString = map (\<lambda>b. char_of (unat b)),
     posix_basename = (\<lambda>p. rev (takeWhile (\<lambda>c. c \<noteq> CHR ''/'') (rev p)))\<rparr>"

definition example_world :: world where
  "example_world =
    \<lparr>resources = (\<lambda>_. blank), n_resources = 0,
     streams = (\<lambda>_. \<lparr>s_chunks = [], s_ending = Hangs, s_finished = False, s_listeners = []\<rparr>)
       (0 := \<lparr>s_chunks = [[1, 2], [3]], s_ending = Ends, s_finished = False, s_listeners = []\<rparr>,
        1 := \<lparr>s_chunks = [[4]], s_ending = Fails 7, s_finished = False, s_listeners = []\<rparr>,
        2 := \<lparr>s_chunks = [[5], [6]], s_ending = Ends, s_finished = False, s_listeners = []\<rparr>),
     n_streams = 3,
     factories = (\<lambda>_. \<lparr>f_chunks = (\<lambda>n. [[8], [9]]), f_ending = (\<lambda>_. Ends), f_calls = 0\<rparr>),
     promises = (\<lambda>_. Pending), n_promises = 0,
     sources = (\<lambda>_. False), now = 1000\<rparr>"

definition example_params :: params where
  "example_params =
    \<lparr>p_path = Some ''/a.js'', p_statInfo = None, p_buffer = None, p_string = None,
     p_createStream = None, p_stream = None, p_project = None, p_source = None\<rparr>"

text \<open>
  The object that a successful \<^verbatim>\<open>new Resource(p)\<close> builds and the world it leaves, written
  out; \<open>runs_setBuffer\<close> says whether the constructor reaches its call of \<^verbatim>\<open>setBuffer\<close>
  (directly or through \<^verbatim>\<open>setString\<close>). \<open>clone_options\<close> are the options that
  \<^verbatim>\<open>_getCloneOptions\<close> builds, and \<open>clone_of r c\<close> compares a new resource \<open>c\<close> with the
  resource \<open>r\<close> it was cloned from.
\<close>

definition runs_setBuffer :: "params \<Rightarrow> bool" where
  "runs_setBuffer p =
    (\<not> truthy (p_createStream p) \<and> \<not> truthy (p_stream p) \<and>
     (truthy (p_buffer p) \<or> truthy (p_string p)))"

definition new_resource :: "runtime \<Rightarrow> params \<Rightarrow> world \<Rightarrow> resource" where
  "new_resource rt p w =
    \<lparr>r_path = the (p_path p), r_name = posix_basename rt (the (p_path p)),
     r_source = p_source p, r_project = p_project p,
     r_statInfo = (case p_statInfo p of Some st \<Rightarrow> st | None \<Rightarrow> defaultStatInfo w),
     r_createStream = p_createStream p,
     r_stream = (if truthy (p_createStream p) then None else p_stream p),
     r_buffer = (if truthy (p_createStream p) \<or> truthy (p_stream p) then None
                 else case p_buffer p of
                        Some b \<Rightarrow> Some b
                      | None \<Rightarrow> map_option (buffer_from_utf8 rt) (p_string p)),
     r_contentDrained = False, r_streamDrained = False, r_buffering = None,
     r_collections = []\<rparr>"

definition constructed_world :: "runtime \<Rightarrow> params \<Rightarrow> world \<Rightarrow> world" where
  "constructed_world rt p w =
    w\<lparr>n_resources := Suc (n_resources w),
      resources := (resources w)(n_resources w := new_resource rt p w),
      sources := (case p_source p of
                    Some src \<Rightarrow> (sources w)(src := runs_setBuffer p)
                  | None \<Rightarrow> sources w)\<rparr>"

definition clone_options :: "resource \<Rightarrow> bytes option \<Rightarrow> params" where
  "clone_options r buffer =
    \<lparr>p_path = Some (r_path r), p_statInfo = Some (r_statInfo r), p_buffer = buffer,
     p_string = None, p_createStream = (if truthy buffer then None else r_createStream r),
     p_stream = None, p_project = None, p_source = r_source r\<rparr>"

definition clone_of :: "resource \<Rightarrow> resource \<Rightarrow> bool" where
  "clone_of r c =
    (r_path c = r_path r \<and> r_statInfo c = r_statInfo r \<and> r_source c = r_source r \<and>
     r_project c = None \<and> r_collections c = [] \<and> r_stream c = None \<and>
     \<not> r_contentDrained c \<and> \<not> r_streamDrained c \<and> r_buffering c = None)"

definition example_stream_params :: params where
  "example_stream_params = example_params\<lparr>p_stream := Some 0, p_source := Some 5\<rparr>"

definition example_stream_world :: world where
  "example_stream_world =
    snd (constructor example_runtime example_stream_params example_world)"

definition example_source_params :: params where
  "example_source_params = example_params\<lparr>p_buffer := Some [1, 2], p_source := Some 5\<rparr>"

definition example_project_world :: world where
  "example_project_world =
    pushCollection 0 ''outer''
      (snd (constructor example_runtime
         (example_source_params\<lparr>p_project :=
            Some \<lparr>getName = ''library.a'', toString = ''[object Object]''\<rparr>\<rparr>)
         example_world))"

text \<open>
  The state of a resource right after \<^verbatim>\<open>new Resource({path, createStream})\<close> or
  \<^verbatim>\<open>setStream(createStream)\<close> with a factory \<open>f\<close> whose next stream emits the chunks \<open>cs\<close> and
  ends.
\<close>

definition factory_backed :: "nat \<Rightarrow> nat \<Rightarrow> bytes list \<Rightarrow> world \<Rightarrow> bool" where
  "factory_backed this f cs w =
    (r_createStream (resources w this) = Some f \<and> r_buffer (resources w this) = None \<and>
     \<not> r_contentDrained (resources w this) \<and> \<not> r_streamDrained (resources w this) \<and>
     r_buffering (resources w this) = None \<and>
     f_ending (factories w f) (f_calls (factories w f)) = Ends \<and>
     f_chunks (factories w f) (f_calls (factories w f)) = cs)"

text \<open>The example resource on a factory, with a source handle.\<close>

definition example_factory_params :: params where
  "example_factory_params = example_params\<lparr>p_createStream := Some 0, p_source := Some 5\<rparr>"

definition example_factory_world :: world where
  "example_factory_world =
    snd (constructor example_runtime example_factory_params example_world)"

section \<open>Properties\<close>

subsection \<open>Auxiliary lemmas\<close>

lemma conflicting_iff:
  "p_string p \<noteq> Some [] \<Longrightarrow> conflicting p \<longleftrightarrow> 2 \<le> given_content p"
  by (cases "p_buffer p"; cases "p_string p"; cases "p_createStream p"; cases "p_stream p")
     (simp_all add: conflicting_def given_content_def truthy_def truthy_string_def)

lemma not_conflicting: "given_content p \<le> 1 \<Longrightarrow> \<not> conflicting p"
  by (cases "p_buffer p"; cases "p_string p"; cases "p_createStream p"; cases "p_stream p")
     (simp_all add: conflicting_def given_content_def truthy_def truthy_string_def)

lemma if_fun_upd: "(\<lambda>a. if a = s then x else f a) = f(s := x)"
  by (simp add: fun_upd_def)

lemma emit_data_steps:
  "streams w s = \<lparr>s_chunks = cs, s_ending = e, s_finished = False, s_listeners = [l]\<rparr> \<Longrightarrow>
   n \<le> length cs \<Longrightarrow>
   (emit s ^^ n) w =
     w\<lparr>streams := (streams w)(s :=
         \<lparr>s_chunks = drop n cs, s_ending = e, s_finished = False,
          s_listeners = [l\<lparr>l_buffers := l_buffers l @ take n cs\<rparr>]\<rparr>)\<rparr>"
proof (induction n arbitrary: w cs l)
  case 0
  have "(streams w)(s := streams w s) = streams w" by simp
  then show ?case using "0.prems"(1) by (simp add: if_fun_upd)
next
  case (Suc n)
  then obtain c cs' where cs: "cs = c # cs'" by (cases cs) auto
  let ?w = "w\<lparr>streams := (streams w)(s :=
         \<lparr>s_chunks = cs', s_ending = e, s_finished = False,
          s_listeners = [on_data c l]\<rparr>)\<rparr>"
  have step: "emit s w = ?w"
    using Suc.prems(1) by (simp add: emit_def cs)
  have "(emit s ^^ Suc n) w = (emit s ^^ n) (emit s w)"
    by (simp add: funpow_swap1)
  also have "\<dots> = (emit s ^^ n) ?w" by (simp only: step)
  also have "\<dots> = ?w\<lparr>streams := (streams ?w)(s :=
         \<lparr>s_chunks = drop n cs', s_ending = e, s_finished = False,
          s_listeners = [(on_data c l)\<lparr>l_buffers := l_buffers (on_data c l) @ take n cs'\<rparr>]\<rparr>)\<rparr>"
    using Suc.prems(2) by (intro Suc.IH) (simp_all add: cs)
  finally have eq: "(emit s ^^ Suc n) w = ?w\<lparr>streams := (streams ?w)(s :=
         \<lparr>s_chunks = drop n cs', s_ending = e, s_finished = False,
          s_listeners = [(on_data c l)\<lparr>l_buffers := l_buffers (on_data c l) @ take n cs'\<rparr>]\<rparr>)\<rparr>" .
  show ?case unfolding eq by (simp add: cs on_data_def if_fun_upd)
qed


lemma start_stream:
  assumes "stream_backed this s cs w"
  shows "priv_getBufferFromStream this w =
    (n_promises w,
     buffering_world this s (n_promises w) [] cs
       (w\<lparr>n_promises := Suc (n_promises w),
          resources := (resources w)(this := (resources w this)\<lparr>r_streamDrained := True\<rparr>)\<rparr>))"
  using assms
  by (simp add: stream_backed_def priv_getBufferFromStream_def priv_getStream_def
      buffering_world_def Let_def)

lemma emit_buffering:
  "n \<le> length cs \<Longrightarrow>
   (emit s ^^ n) (buffering_world this s p bs cs w) =
     buffering_world this s p (bs @ take n cs) (drop n cs) w"
proof -
  assume n: "n \<le> length cs"
  have "streams (buffering_world this s p bs cs w) s =
     \<lparr>s_chunks = cs, s_ending = Ends, s_finished = False,
      s_listeners = [\<lparr>l_this = this, l_promise = p, l_buffers = bs\<rparr>]\<rparr>"
    by (simp add: buffering_world_def)
  from emit_data_steps[OF this n] show ?thesis
    by (simp add: buffering_world_def)
qed

lemma setBuffer_world:
  "setBuffer this b w =
    w\<lparr>sources := (case r_source (resources w this) of
                      Some a \<Rightarrow> (sources w)(a := True) | None \<Rightarrow> sources w),
      resources := (resources w)(this := (resources w this)
        \<lparr>r_createStream := None, r_stream := None, r_buffer := Some b,
         r_contentDrained := False, r_streamDrained := False\<rparr>)\<rparr>"
proof (cases "r_source (resources w this)")
  case None
  then show ?thesis by (simp add: setBuffer_def)
next
  case (Some a)
  then show ?thesis
    by (cases "sources w a") (simp_all add: setBuffer_def fun_upd_idem)
qed

lemma on_end_world:
  "promises w p = Pending \<Longrightarrow>
   on_end \<lparr>l_this = this, l_promise = p, l_buffers = bs\<rparr> w =
    w\<lparr>promises := (promises w)(p := Resolved (concat bs)),
      resources := (resources w)(this := (resources w this)
        \<lparr>r_createStream := None, r_stream := None, r_buffer := Some (concat bs),
         r_contentDrained := False, r_streamDrained := False, r_buffering := None\<rparr>)\<rparr>"
proof (cases "r_source (resources w this)")
  case None
  assume "promises w p = Pending"
  with None show ?thesis
    by (simp add: on_end_def setBuffer_world resolve_def Let_def)
next
  case (Some a)
  assume "promises w p = Pending"
  with Some show ?thesis
    by (simp add: on_end_def setBuffer_world resolve_def Let_def)
qed

lemma emit_end:
  "emit s (buffering_world this s p bs [] w) = buffered_world this s p bs w"
proof -
  let ?l = "\<lparr>l_this = this, l_promise = p, l_buffers = bs\<rparr>"
  let ?w = "(buffering_world this s p bs [] w)\<lparr>streams := (streams w)(s :=
        \<lparr>s_chunks = [], s_ending = Ends, s_finished = True, s_listeners = [?l]\<rparr>)\<rparr>"
  have "emit s (buffering_world this s p bs [] w) = on_end ?l ?w"
    by (simp add: emit_def buffering_world_def)
  also have "\<dots> = buffered_world this s p bs w"
    by (subst on_end_world) (simp_all add: buffering_world_def buffered_world_def)
  finally show ?thesis .
qed

lemma emit_all_buffering:
  "emit_all s (buffering_world this s p bs cs w) = buffered_world this s p (bs @ cs) w"
proof -
  have "emit_all s (buffering_world this s p bs cs w) =
      emit s ((emit s ^^ length cs) (buffering_world this s p bs cs w))"
    by (simp add: emit_all_def buffering_world_def)
  then show ?thesis by (simp add: emit_buffering emit_end)
qed

lemma constructor_world:
  assumes "truthy_string (p_path p)" and "\<not> conflicting p"
  shows "constructor rt p w = (Inr (n_resources w), constructed_world rt p w)"
proof (cases "p_source p")
  case None
  then show ?thesis using assms
    by (cases "p_createStream p"; cases "p_stream p"; cases "p_buffer p"; cases "p_string p")
       (simp_all add: constructor_def Let_def truthy_def setBuffer_def setString_def
          constructed_world_def new_resource_def blank_def runs_setBuffer_def
          defaultStatInfo_def split: option.split)
next
  case (Some src)
  then show ?thesis using assms
    by (cases "p_createStream p"; cases "p_stream p"; cases "p_buffer p"; cases "p_string p")
       (simp_all add: constructor_def Let_def truthy_def setBuffer_def setString_def
          constructed_world_def new_resource_def blank_def runs_setBuffer_def
          defaultStatInfo_def split: option.split)
qed

lemma clone_options_ok:
  "r_path r \<noteq> [] \<Longrightarrow> truthy_string (p_path (clone_options r b)) \<and>
     \<not> conflicting (clone_options r b)"
  by (cases b; cases "r_createStream r")
     (simp_all add: clone_options_def truthy_string_def truthy_def conflicting_def)

lemma clone_now:
  assumes "r_stream (resources w this) = None" and "r_path (resources w this) \<noteq> []"
  shows "clone rt this w =
    (Return (n_resources w),
     constructed_world rt
       (clone_options (resources w this)
          (if truthy (r_createStream (resources w this)) then None
           else r_buffer (resources w this))) w)"
proof -
  let ?r = "resources w this"
  let ?o = "clone_options ?r (if truthy (r_createStream ?r) then None else r_buffer ?r)"
  have "priv_getCloneOptions this w = (Return ?o, w)"
    using assms(1)
    by (cases "r_createStream ?r"; cases "r_buffer ?r")
       (simp_all add: priv_getCloneOptions_def clone_options_def truthy_def Let_def)
  moreover have "constructor rt ?o w = (Inr (n_resources w), constructed_world rt ?o w)"
    using clone_options_ok[OF assms(2)] by (intro constructor_world) simp_all
  ultimately show ?thesis by (simp add: clone_def)
qed

lemma clone_stream:
  assumes "stream_backed this s cs w" and "r_path (resources w this) \<noteq> []"
  shows "(case clone rt this w of
      (a, w1) \<Rightarrow>
        settle a (emit_all s w1) =
          (Return (n_resources w),
           constructed_world rt (clone_options (resources w this) (Some (concat cs)))
             (buffered_world this s (n_promises w) cs
               (w\<lparr>n_promises := Suc (n_promises w),
                  resources := (resources w)(this :=
                    (resources w this)\<lparr>r_streamDrained := True\<rparr>)\<rparr>))))"
proof -
  let ?r = "resources w this"
  let ?w0 = "w\<lparr>n_promises := Suc (n_promises w),
                  resources := (resources w)(this := ?r\<lparr>r_streamDrained := True\<rparr>)\<rparr>"
  let ?p = "n_promises w"
  let ?o = "clone_options ?r (Some (concat cs))"
  let ?wb = "buffered_world this s ?p cs ?w0"
  have st: "r_stream ?r = Some s" using assms(1) by (simp add: stream_backed_def)
  have opts: "\<lparr>p_path = Some (r_path ?r), p_statInfo = Some (r_statInfo ?r),
      p_buffer = Some (concat cs), p_string = None, p_createStream = None,
      p_stream = None, p_project = None, p_source = r_source ?r\<rparr> = ?o"
    by (simp add: clone_options_def truthy_def)
  have c: "constructor rt ?o ?wb = (Inr (n_resources w), constructed_world rt ?o ?wb)"
  proof -
    have "constructor rt ?o ?wb = (Inr (n_resources ?wb), constructed_world rt ?o ?wb)"
      using clone_options_ok[OF assms(2)] by (intro constructor_world) simp_all
    then show ?thesis by (simp add: buffered_world_def)
  qed
  have pr: "promises ?wb ?p = Resolved (concat cs)"
    by (simp add: buffered_world_def)
  have e: "emit_all s (buffering_world this s ?p [] cs ?w0) = ?wb"
    using emit_all_buffering[of s this ?p "[]" cs ?w0] by simp
  show ?thesis
    using st
    by (simp add: clone_def priv_getCloneOptions_def start_stream[OF assms(1)] Let_def opts
        e settle_def pr c)
qed

lemma getBuffer_stream:
  assumes "stream_backed this s cs w"
  shows "getBuffer this w =
    (Await (n_promises w) (\<lambda>buffer w''. (Inr buffer, w'')),
     buffering_world this s (n_promises w) [] cs
       (w\<lparr>n_promises := Suc (n_promises w),
          resources := (resources w)(this := (resources w this)\<lparr>r_streamDrained := True\<rparr>)\<rparr>))"
  using assms
  by (simp add: getBuffer_def start_stream[OF assms] truthy_def stream_backed_def)

lemma getBuffer_buffering:
  assumes "stream_backed this s cs0 w"
  shows "getBuffer this (buffering_world this s p bs cs
       (w\<lparr>n_promises := np,
          resources := (resources w)(this := (resources w this)\<lparr>r_streamDrained := True\<rparr>)\<rparr>)) =
    (Await p (\<lambda>buffer w''. (Inr buffer, w'')),
     buffering_world this s p bs cs
       (w\<lparr>n_promises := np,
          resources := (resources w)(this := (resources w this)\<lparr>r_streamDrained := True\<rparr>)\<rparr>))"
  using assms
  by (simp add: getBuffer_def priv_getBufferFromStream_def truthy_def stream_backed_def
      buffering_world_def)

lemma settle_buffered:
  "settle (Await p (\<lambda>buffer w''. (Inr buffer, w''))) (buffered_world this s p bs w) =
     (Return (concat bs), buffered_world this s p bs w)"
  by (simp add: settle_def buffered_world_def)

lemma example_stream_world_facts:
  "constructor example_runtime example_stream_params example_world =
     (Inr 0, example_stream_world)"
  "stream_backed 0 0 [[1, 2], [3]] example_stream_world"
  "r_source (resources example_stream_world 0) = Some 5"
  "r_path (resources example_stream_world 0) = ''/a.js''"
  "n_resources example_stream_world = 1"
  "n_promises example_stream_world = 0"
  "\<not> sources example_stream_world 5"
proof -
  have ok: "truthy_string (p_path example_stream_params)"
    "\<not> conflicting example_stream_params"
    by (simp_all add: example_stream_params_def example_params_def truthy_string_def
        conflicting_def truthy_def)
  have w: "example_stream_world =
      constructed_world example_runtime example_stream_params example_world"
    by (simp add: example_stream_world_def constructor_world[OF ok])
  show "constructor example_runtime example_stream_params example_world =
     (Inr 0, example_stream_world)"
    by (simp add: w constructor_world[OF ok] example_world_def)
  show "stream_backed 0 0 [[1, 2], [3]] example_stream_world"
    by (simp add: w stream_backed_def constructed_world_def new_resource_def
        example_stream_params_def example_params_def example_world_def truthy_def)
  show "r_source (resources example_stream_world 0) = Some 5"
    "r_path (resources example_stream_world 0) = ''/a.js''"
    "n_resources example_stream_world = 1"
    "n_promises example_stream_world = 0"
    "\<not> sources example_stream_world 5"
    by (simp_all add: w constructed_world_def new_resource_def runs_setBuffer_def
        example_stream_params_def example_params_def example_world_def truthy_def)
qed

lemma start_factory:
  assumes "r_createStream (resources w this) = Some f"
    and "\<not> r_streamDrained (resources w this)"
    and "r_buffering (resources w this) = None"
    and "f_ending (factories w f) (f_calls (factories w f)) = Ends"
  shows "priv_getBufferFromStream this w =
    (n_promises w,
     buffering_world this (n_streams w) (n_promises w) []
       (f_chunks (factories w f) (f_calls (factories w f)))
       (w\<lparr>n_promises := Suc (n_promises w), n_streams := Suc (n_streams w),
          factories := (factories w)(f :=
            (factories w f)\<lparr>f_calls := Suc (f_calls (factories w f))\<rparr>)\<rparr>))"
  using assms
  by (simp add: priv_getBufferFromStream_def priv_getStream_def buffering_world_def Let_def)

lemma single_content:
  assumes "given_content p \<le> 1" and "truthy_string (p_path p)"
  shows "constructor rt p w = (Inr (n_resources w), constructed_world rt p w)"
  using assms by (intro constructor_world not_conflicting)

lemma getStream_other:
  "c \<noteq> this \<Longrightarrow> resources (snd (getStream this w)) c = resources w c"
  by (cases "r_buffer (resources w this)"; cases "r_createStream (resources w this)")
     (simp_all add: getStream_def priv_getStream_def Let_def split: option.split)

lemma setBuffer_other:
  "c \<noteq> this \<Longrightarrow> resources (setBuffer this b w) c = resources w c"
  by (simp add: setBuffer_world)

lemma getBuffer_factory:
  assumes "factory_backed this f cs w"
  shows "getBuffer this w =
    (Await (n_promises w) (\<lambda>buffer w''. (Inr buffer, w'')),
     buffering_world this (n_streams w) (n_promises w) [] cs
       (w\<lparr>n_promises := Suc (n_promises w), n_streams := Suc (n_streams w),
          factories := (factories w)(f :=
            (factories w f)\<lparr>f_calls := Suc (f_calls (factories w f))\<rparr>)\<rparr>))"
proof -
  from assms have r: "r_createStream (resources w this) = Some f"
    "\<not> r_streamDrained (resources w this)" "r_buffering (resources w this) = None"
    "f_ending (factories w f) (f_calls (factories w f)) = Ends"
    "r_buffer (resources w this) = None" "\<not> r_contentDrained (resources w this)"
    "f_chunks (factories w f) (f_calls (factories w f)) = cs"
    by (simp_all add: factory_backed_def)
  show ?thesis
    using start_factory[OF r(1,2,3,4)] r(1,5,6,7)
    by (simp add: getBuffer_def truthy_def)
qed

lemma sources_on_end: "sources (on_end l w) = sources w"
  by (cases "r_source (resources w (l_this l))")
     (simp_all add: on_end_def setBuffer_world resolve_def Let_def)

lemma sources_on_error: "sources (on_error e l w) = sources w"
  by (simp add: on_error_def reject_def)

lemma sources_fold_on_end: "sources (fold on_end ls w) = sources w"
  by (induction ls arbitrary: w) (simp_all add: sources_on_end)

lemma sources_fold_on_error: "sources (fold (on_error e) ls w) = sources w"
  by (induction ls arbitrary: w) (simp_all add: sources_on_error)

lemma sources_emit: "sources (emit s w) = sources w"
  by (simp add: emit_def Let_def sources_fold_on_end sources_fold_on_error
      split: list.split ending.split)

lemma sources_priv_getStream: "sources (snd (priv_getStream this w)) = sources w"
  by (simp add: priv_getStream_def Let_def split: option.split)

lemma sources_priv_getBufferFromStream:
  "sources (snd (priv_getBufferFromStream this w)) = sources w"
proof (cases "r_buffering (resources w this)")
  case (Some p)
  then show ?thesis by (simp add: priv_getBufferFromStream_def)
next
  case None
  let ?w1 = "w\<lparr>n_promises := Suc (n_promises w),
               promises := (promises w)(n_promises w := Pending)\<rparr>"
  have "sources (snd (priv_getStream this ?w1)) = sources w"
    by (simp add: sources_priv_getStream)
  then show ?thesis
    using None
    by (cases "priv_getStream this ?w1")
       (auto simp: priv_getBufferFromStream_def Let_def reject_def
          split: sum.split option.split)
qed

lemma sources_getBuffer: "sources (snd (getBuffer this w)) = sources w"
  using sources_priv_getBufferFromStream[of this w]
  by (cases "priv_getBufferFromStream this w")
     (simp add: getBuffer_def Let_def split: option.split)

lemma example_factory_world_facts:
  "factory_backed 0 0 [[8], [9]] example_factory_world"
  "r_source (resources example_factory_world 0) = Some 5"
  "n_streams example_factory_world = 3"
  "\<not> sources example_factory_world 5"
proof -
  have ok: "truthy_string (p_path example_factory_params)"
    "\<not> conflicting example_factory_params"
    by (simp_all add: example_factory_params_def example_params_def truthy_string_def
        conflicting_def truthy_def)
  have w: "example_factory_world =
      constructed_world example_runtime example_factory_params example_world"
    by (simp add: example_factory_world_def constructor_world[OF ok])
  show "factory_backed 0 0 [[8], [9]] example_factory_world"
    "r_source (resources example_factory_world 0) = Some 5"
    "n_streams example_factory_world = 3"
    "\<not> sources example_factory_world 5"
    by (simp_all add: w factory_backed_def constructed_world_def new_resource_def
        runs_setBuffer_def example_factory_params_def example_params_def example_world_def
        truthy_def)
qed

lemma sources_getString: "sources (snd (getString rt this w)) = sources w"
proof (cases "getBuffer this w")
  case (Pair a w')
  with sources_getBuffer[of this w] have "sources w' = sources w" by simp
  with Pair show ?thesis
    by (cases a) (simp_all add: getString_def Let_def)
qed

lemma sources_getSize: "sources (snd (getSize this w)) = sources w"
proof (cases "getBuffer this w")
  case (Pair a w')
  with sources_getBuffer[of this w] have "sources w' = sources w" by simp
  with Pair show ?thesis
    by (cases a) (simp_all add: getSize_def Let_def)
qed

subsection \<open>The constructor's checks\<close>

text \<open>
  Claim C5, as amended. The constructor fails with the missing-path error when the path is
  missing or empty. With a path, it fails with the conflicting-content error when two or
  more of buffer, string, stream and createStream are given and no empty string is among
  them. With a path and at most one content parameter it succeeds and returns the new
  object; that covers zero content parameters, which give a resource without content.
\<close>

theorem constructor_content_check:
  "(\<not> truthy_string (p_path p) \<longrightarrow> constructor rt p w = (Inl MissingPath, w)) \<and>
   (truthy_string (p_path p) \<and> 2 \<le> given_content p \<and> p_string p \<noteq> Some [] \<longrightarrow>
      constructor rt p w = (Inl ConflictingContent, w)) \<and>
   (truthy_string (p_path p) \<and> given_content p \<le> 1 \<longrightarrow>
      fst (constructor rt p w) = Inr (n_resources w))"
  by (simp add: constructor_def conflicting_iff not_conflicting Let_def)

text \<open>
  The three cases at concrete parameters: an empty path; a buffer together with a string;
  a string alone.
\<close>

theorem constructor_content_check_witness:
  "constructor example_runtime (example_params\<lparr>p_path := Some []\<rparr>) example_world
     = (Inl MissingPath, example_world) \<and>
   constructor example_runtime
     (example_params\<lparr>p_buffer := Some [1], p_string := Some ''x''\<rparr>) example_world
     = (Inl ConflictingContent, example_world) \<and>
   fst (constructor example_runtime (example_params\<lparr>p_string := Some ''x''\<rparr>) example_world)
     = Inr 0"
  using constructor_content_check
      [of "example_params\<lparr>p_path := Some []\<rparr>" example_runtime example_world]
    constructor_content_check
      [of "example_params\<lparr>p_buffer := Some [1], p_string := Some ''x''\<rparr>"
          example_runtime example_world]
    constructor_content_check
      [of "example_params\<lparr>p_string := Some ''x''\<rparr>" example_runtime example_world]
  by (simp add: example_params_def truthy_string_def truthy_def given_content_def
      example_world_def)

text \<open>
  Claim C5 as stated fails: with a path and no content parameter at all, the constructor
  does not fail.
\<close>

theorem constructor_without_content:
  "given_content example_params = 0 \<and>
   fst (constructor example_runtime example_params example_world) = Inr 0"
  by (simp add: example_params_def given_content_def truthy_def truthy_string_def
      constructor_def conflicting_def Let_def example_world_def)

subsection \<open>Project association\<close>

text \<open>
  Claim C8, the message of the failure. A resource of project \<^verbatim>\<open>library.a\<close> is assigned the
  project \<^verbatim>\<open>library.b\<close>: the message names the attempted project through \<^verbatim>\<open>getName()\<close>, and
  shows the existing project through its conversion to a string, not through its name.
\<close>

theorem setProject_message:
  "(case constructor example_runtime
      (example_params\<lparr>p_project :=
         Some \<lparr>getName = ''library.a'', toString = ''[object Object]''\<rparr>\<rparr>) example_world of
      (created, w) \<Rightarrow>
        created = Inr 0 \<and>
        setProject 0 \<lparr>getName = ''library.b'', toString = ''[object Object]''\<rparr> w =
          (Inl (ProjectAlreadyAssigned
             (''Unable to assign project library.b to resource /a.js: '' @
              ''Resource is already associated to project [object Object]'')), w))"
  by (simp add: constructor_def conflicting_def truthy_def truthy_string_def Let_def
      example_params_def example_world_def setProject_def)

text \<open>
  The rest of claim C8 holds: on a resource without a project \<^verbatim>\<open>setProject\<close> succeeds,
  \<^verbatim>\<open>hasProject\<close> is true afterwards, and a second \<^verbatim>\<open>setProject\<close> fails.
\<close>

lemma setProject_once:
  "r_project (resources w this) = None \<Longrightarrow>
   (case setProject this a w of
      (res, w') \<Rightarrow> res = Inr () \<and> hasProject this w' \<and> isl (fst (setProject this b w')))"
  by (simp add: setProject_def hasProject_def truthy_def)

subsection \<open>Materialization of a stream\<close>

text \<open>
  Claim C2. Let a resource hold an unread stream that emits the chunks \<open>cs\<close> and ends. The
  first \<^verbatim>\<open>getBuffer()\<close> returns a wait for a new promise. While the materialization is in
  flight, that is after any number \<open>n\<close> of the stream's \<^verbatim>\<open>data\<close> events and before its \<^verbatim>\<open>end\<close>
  event, a further \<^verbatim>\<open>getBuffer()\<close> returns the same wait for the same promise and leaves
  the world as it is, so it starts no second drain: the stream keeps exactly one registered
  reader. Once the stream has ended, every caller's wait resolves to the concatenation of
  the chunks.
\<close>

theorem getBuffer_deduplicated:
  "stream_backed this s cs w \<Longrightarrow>
   (case getBuffer this w of
      (a, w1) \<Rightarrow>
        a = Await (n_promises w) (\<lambda>buffer w''. (Inr buffer, w'')) \<and>
        (\<forall>n\<le>length cs.
           getBuffer this ((emit s ^^ n) w1) = (a, (emit s ^^ n) w1) \<and>
           promises ((emit s ^^ n) w1) (n_promises w) = Pending \<and>
           length (s_listeners (streams ((emit s ^^ n) w1) s)) = 1) \<and>
        settle a (emit_all s w1) = (Return (concat cs), emit_all s w1) \<and>
        length (s_listeners (streams (emit_all s w1) s)) = 1)"
proof -
  assume sb: "stream_backed this s cs w"
  let ?w0 = "w\<lparr>n_promises := Suc (n_promises w),
          resources := (resources w)(this := (resources w this)\<lparr>r_streamDrained := True\<rparr>)\<rparr>"
  let ?p = "n_promises w"
  let ?a = "Await ?p (\<lambda>buffer w''. (Inr buffer, w''))"
  let ?w1 = "buffering_world this s ?p [] cs ?w0"
  have g: "getBuffer this w = (?a, ?w1)" by (rule getBuffer_stream[OF sb])
  have inflight: "getBuffer this ((emit s ^^ n) ?w1) = (?a, (emit s ^^ n) ?w1) \<and>
           promises ((emit s ^^ n) ?w1) ?p = Pending \<and>
           length (s_listeners (streams ((emit s ^^ n) ?w1) s)) = 1" if "n \<le> length cs" for n
  proof -
    have e: "(emit s ^^ n) ?w1 = buffering_world this s ?p (take n cs) (drop n cs) ?w0"
      using emit_buffering[OF that, of s this ?p "[]" ?w0] by simp
    show ?thesis
      unfolding e using getBuffer_buffering[OF sb]
      by (simp add: buffering_world_def)
  qed
  have fin: "emit_all s ?w1 = buffered_world this s ?p cs ?w0"
    using emit_all_buffering[of s this ?p "[]" cs ?w0] by simp
  have "settle ?a (emit_all s ?w1) = (Return (concat cs), emit_all s ?w1)"
    unfolding fin by (rule settle_buffered)
  moreover have "length (s_listeners (streams (emit_all s ?w1) s)) = 1"
    unfolding fin by (simp add: buffered_world_def)
  ultimately show ?thesis using inflight by (simp add: g)
qed

text \<open>
  An instance: the resource \<^verbatim>\<open>/a.js\<close> on the stream with the chunks \<open>[1, 2]\<close> and \<open>[3]\<close>; a
  second call at once and a third call after the first chunk.
\<close>

theorem getBuffer_deduplicated_witness:
  "stream_backed 0 0 [[1, 2], [3]] example_stream_world \<and>
   (case getBuffer 0 example_stream_world of
      (a, w1) \<Rightarrow>
        getBuffer 0 w1 = (a, w1) \<and>
        getBuffer 0 (emit 0 w1) = (a, emit 0 w1) \<and>
        length (s_listeners (streams (emit 0 w1) 0)) = 1 \<and>
        fst (settle a (emit_all 0 w1)) = Return [1, 2, 3])"
proof (cases "getBuffer 0 example_stream_world")
  case (Pair a w1)
  from getBuffer_deduplicated[OF example_stream_world_facts(2)] Pair
  have all: "\<forall>n\<le>2. getBuffer 0 ((emit 0 ^^ n) w1) = (a, (emit 0 ^^ n) w1) \<and>
           promises ((emit 0 ^^ n) w1) (n_promises example_stream_world) = Pending \<and>
           length (s_listeners (streams ((emit 0 ^^ n) w1) 0)) = 1"
    and fin: "settle a (emit_all 0 w1) = (Return (concat [[1, 2], [3]]), emit_all 0 w1)"
    by auto
  from all have "getBuffer 0 ((emit 0 ^^ 0) w1) = (a, (emit 0 ^^ 0) w1)"
    by (rule allE[of _ 0]) simp
  moreover from all have "getBuffer 0 ((emit 0 ^^ 1) w1) = (a, (emit 0 ^^ 1) w1) \<and>
      length (s_listeners (streams ((emit 0 ^^ 1) w1) 0)) = 1"
    by (rule allE[of _ 1]) simp
  ultimately show ?thesis
    using fin example_stream_world_facts(2) by (simp add: Pair)
qed

text \<open>
  Claim C7. For a resource with a source handle, reading content that has to be
  materialized (the first \<^verbatim>\<open>getBuffer()\<close>, then the events of the stream read) installs the
  buffer and leaves \<^verbatim>\<open>source.modified\<close> as it was, so a flag that was false stays false.
  This holds for a resource on an unread stream and for a resource on a factory. In any
  state, neither a call of \<^verbatim>\<open>getBuffer()\<close>, \<^verbatim>\<open>getString()\<close> or \<^verbatim>\<open>getSize()\<close>, nor an event of
  any stream, nor the \<^verbatim>\<open>end\<close> handler of any pending read changes the flag of any source
  handle. An explicit \<^verbatim>\<open>setBuffer\<close> makes
  the flag true.
\<close>

theorem materialization_keeps_modified:
  "r_source (resources w this) = Some src \<Longrightarrow>
   (stream_backed this s cs w \<longrightarrow>
      (case getBuffer this w of
         (a, w1) \<Rightarrow>
           (case settle a (emit_all s w1) of
              (a', w2) \<Rightarrow>
                a' = Return (concat cs) \<and> r_buffer (resources w2 this) = Some (concat cs) \<and>
                sources w2 src = sources w src))) \<and>
   (factory_backed this f cs w \<longrightarrow>
      (case getBuffer this w of
         (a, w1) \<Rightarrow>
           (case settle a (emit_all (n_streams w) w1) of
              (a', w2) \<Rightarrow>
                a' = Return (concat cs) \<and> r_buffer (resources w2 this) = Some (concat cs) \<and>
                sources w2 src = sources w src))) \<and>
   sources (snd (getBuffer this w)) = sources w \<and>
   sources (snd (getString rt this w)) = sources w \<and>
   sources (snd (getSize this w)) = sources w \<and>
   sources (emit s w) = sources w \<and>
   sources (on_end l w) = sources w \<and>
   sources (setBuffer this b w) src"
proof (intro conjI impI)
  assume src: "r_source (resources w this) = Some src"
  then show "sources (setBuffer this b w) src"
    by (simp add: setBuffer_world)
  show "sources (snd (getBuffer this w)) = sources w" by (rule sources_getBuffer)
  show "sources (snd (getString rt this w)) = sources w" by (rule sources_getString)
  show "sources (snd (getSize this w)) = sources w" by (rule sources_getSize)
  show "sources (emit s w) = sources w" by (rule sources_emit)
  show "sources (on_end l w) = sources w" by (rule sources_on_end)
  {
    assume sb: "stream_backed this s cs w"
    let ?w0 = "w\<lparr>n_promises := Suc (n_promises w),
          resources := (resources w)(this := (resources w this)\<lparr>r_streamDrained := True\<rparr>)\<rparr>"
    have fin: "emit_all s (buffering_world this s (n_promises w) [] cs ?w0) =
        buffered_world this s (n_promises w) cs ?w0"
      using emit_all_buffering[of s this "n_promises w" "[]" cs ?w0] by simp
    show "case getBuffer this w of
         (a, w1) \<Rightarrow>
           (case settle a (emit_all s w1) of
              (a', w2) \<Rightarrow>
                a' = Return (concat cs) \<and> r_buffer (resources w2 this) = Some (concat cs) \<and>
                sources w2 src = sources w src)"
      by (simp add: getBuffer_stream[OF sb] fin settle_buffered) (simp add: buffered_world_def)
  }
  {
    assume fb: "factory_backed this f cs w"
    let ?w0 = "w\<lparr>n_promises := Suc (n_promises w), n_streams := Suc (n_streams w),
          factories := (factories w)(f :=
            (factories w f)\<lparr>f_calls := Suc (f_calls (factories w f))\<rparr>)\<rparr>"
    have fin: "emit_all (n_streams w)
          (buffering_world this (n_streams w) (n_promises w) [] cs ?w0) =
        buffered_world this (n_streams w) (n_promises w) cs ?w0"
      using emit_all_buffering[of "n_streams w" this "n_promises w" "[]" cs ?w0] by simp
    show "case getBuffer this w of
         (a, w1) \<Rightarrow>
           (case settle a (emit_all (n_streams w) w1) of
              (a', w2) \<Rightarrow>
                a' = Return (concat cs) \<and> r_buffer (resources w2 this) = Some (concat cs) \<and>
                sources w2 src = sources w src)"
      by (simp add: getBuffer_factory[OF fb] fin settle_buffered) (simp add: buffered_world_def)
  }
qed

text \<open>
  Instances with \<^verbatim>\<open>source.modified\<close> false before the read: the resource on the example
  stream and the resource on the example factory.
\<close>

theorem materialization_keeps_modified_witness:
  "r_source (resources example_stream_world 0) = Some 5 \<and>
   stream_backed 0 0 [[1, 2], [3]] example_stream_world \<and>
   \<not> sources example_stream_world 5 \<and>
   (case getBuffer 0 example_stream_world of
      (a, w1) \<Rightarrow>
        (case settle a (emit_all 0 w1) of
           (a', w2) \<Rightarrow> a' = Return [1, 2, 3] \<and> \<not> sources w2 5)) \<and>
   sources (setBuffer 0 [7] example_stream_world) 5 \<and>
   r_source (resources example_factory_world 0) = Some 5 \<and>
   factory_backed 0 0 [[8], [9]] example_factory_world \<and>
   \<not> sources example_factory_world 5 \<and>
   (case getBuffer 0 example_factory_world of
      (a, w1) \<Rightarrow>
        (case settle a (emit_all 3 w1) of
           (a', w2) \<Rightarrow> a' = Return [8, 9] \<and> \<not> sources w2 5))"
  using materialization_keeps_modified
    [OF example_stream_world_facts(3),
      where s = 0 and cs = "[[1, 2], [3]]" and b = "[7]", THEN conjunct1]
    materialization_keeps_modified
    [OF example_stream_world_facts(3), where b = "[7]",
      THEN conjunct2, THEN conjunct2, THEN conjunct2, THEN conjunct2, THEN conjunct2,
      THEN conjunct2, THEN conjunct2]
    materialization_keeps_modified
    [OF example_factory_world_facts(2),
      where f = 0 and cs = "[[8], [9]]", THEN conjunct2, THEN conjunct1]
    example_stream_world_facts(2,3,7) example_factory_world_facts
  by (simp split: prod.splits)

subsection \<open>The source handle at construction and on cloning\<close>

text \<open>
  Claim C10. A successful construction with a source handle leaves \<^verbatim>\<open>source.modified\<close> true
  exactly when the constructor reaches its call of \<^verbatim>\<open>setBuffer\<close>, that is when no stream
  and no factory is given and a buffer or a string is; otherwise it leaves the flag false,
  whatever the flag was before, since the constructor resets it first. The clone of a
  resource gets the same source handle, and cloning writes the flag of that shared handle
  the same way: true when the clone is built from a buffer (also from the buffer
  materialized from a stream), false when it is built from a factory or without content.
\<close>

theorem source_modified_by_constructor:
  "(p_source p = Some src \<and> constructor rt p w = (Inr this, w') \<longrightarrow>
      (sources w' src \<longleftrightarrow>
         \<not> truthy (p_createStream p) \<and> \<not> truthy (p_stream p) \<and>
         (truthy (p_buffer p) \<or> truthy (p_string p)))) \<and>
   (r_source (resources w this) = Some src \<and> r_path (resources w this) \<noteq> [] \<and>
    r_stream (resources w this) = None \<longrightarrow>
      (case clone rt this w of
         (a, w') \<Rightarrow>
           a = Return (n_resources w) \<and>
           r_source (resources w' (n_resources w)) = Some src \<and>
           (sources w' src \<longleftrightarrow>
              \<not> truthy (r_createStream (resources w this)) \<and>
              truthy (r_buffer (resources w this))))) \<and>
   (r_source (resources w this) = Some src \<and> r_path (resources w this) \<noteq> [] \<and>
    stream_backed this s cs w \<longrightarrow>
      (case clone rt this w of
         (a, w1) \<Rightarrow>
           (case settle a (emit_all s w1) of
              (a', w') \<Rightarrow>
                a' = Return (n_resources w) \<and>
                r_source (resources w' (n_resources w)) = Some src \<and> sources w' src)))"
proof (intro conjI impI)
  assume a: "p_source p = Some src \<and> constructor rt p w = (Inr this, w')"
  then have ok: "truthy_string (p_path p)" "\<not> conflicting p"
    by (auto simp: constructor_def split: if_splits)
  from constructor_world[OF ok, of rt w] a
  have "w' = constructed_world rt p w" by simp
  with a show "sources w' src \<longleftrightarrow>
         \<not> truthy (p_createStream p) \<and> \<not> truthy (p_stream p) \<and>
         (truthy (p_buffer p) \<or> truthy (p_string p))"
    by (simp add: constructed_world_def runs_setBuffer_def)
next
  assume a: "r_source (resources w this) = Some src \<and> r_path (resources w this) \<noteq> [] \<and>
    r_stream (resources w this) = None"
  then show "case clone rt this w of
         (a, w') \<Rightarrow>
           a = Return (n_resources w) \<and>
           r_source (resources w' (n_resources w)) = Some src \<and>
           (sources w' src \<longleftrightarrow>
              \<not> truthy (r_createStream (resources w this)) \<and>
              truthy (r_buffer (resources w this)))"
    by (simp add: clone_now constructed_world_def new_resource_def clone_options_def
        runs_setBuffer_def truthy_def)
next
  assume a: "r_source (resources w this) = Some src \<and> r_path (resources w this) \<noteq> [] \<and>
    stream_backed this s cs w"
  then have sb: "stream_backed this s cs w" and pa: "r_path (resources w this) \<noteq> []"
    by simp_all
  from clone_stream[OF sb pa, of rt] a
  show "case clone rt this w of
         (a, w1) \<Rightarrow>
           (case settle a (emit_all s w1) of
              (a', w') \<Rightarrow>
                a' = Return (n_resources w) \<and>
                r_source (resources w' (n_resources w)) = Some src \<and> sources w' src)"
    by (auto simp: constructed_world_def new_resource_def clone_options_def
        runs_setBuffer_def truthy_def buffered_world_def split: prod.splits)
qed

text \<open>
  Instances: a resource constructed from a buffer has the flag true; after the flag has
  been put back to false, cloning that resource makes it true again; and so does cloning a
  resource with an unread stream.
\<close>

theorem source_modified_by_constructor_witness:
  "\<not> sources example_world 5 \<and>
   (case constructor example_runtime example_source_params example_world of
      (created, w1) \<Rightarrow>
        created = Inr 0 \<and> sources w1 5 \<and>
        (case clone example_runtime 0 (w1\<lparr>sources := (sources w1)(5 := False)\<rparr>) of
           (cloned, w2) \<Rightarrow> cloned = Return 1 \<and> sources w2 5)) \<and>
   \<not> sources example_stream_world 5 \<and>
   (case clone example_runtime 0 example_stream_world of
      (a, w1) \<Rightarrow>
        (case settle a (emit_all 0 w1) of
           (cloned, w2) \<Rightarrow> cloned = Return 1 \<and> sources w2 5))"
proof -
  let ?w1 = "constructed_world example_runtime example_source_params example_world"
  let ?w1' = "?w1\<lparr>sources := (sources ?w1)(5 := False)\<rparr>"
  have c: "constructor example_runtime example_source_params example_world = (Inr 0, ?w1)"
    using constructor_world[of example_source_params example_runtime example_world]
    by (simp add: example_source_params_def example_params_def truthy_string_def
        conflicting_def truthy_def example_world_def)
  have s: "p_source example_source_params = Some 5"
    by (simp add: example_source_params_def)
  have m1: "sources ?w1 5"
    using source_modified_by_constructor
        [where p = example_source_params and src = 5 and rt = example_runtime
           and w = example_world and this = 0 and w' = ?w1, THEN conjunct1] c s
    by (simp add: example_source_params_def example_params_def truthy_def)
  have r: "r_source (resources ?w1 0) = Some 5" "r_path (resources ?w1 0) \<noteq> []"
    "r_stream (resources ?w1 0) = None" "r_createStream (resources ?w1 0) = None"
    "r_buffer (resources ?w1 0) = Some [1, 2]" "n_resources ?w1 = 1"
    by (simp_all add: constructed_world_def new_resource_def example_source_params_def
        example_params_def example_world_def truthy_def)
  have m2: "case clone example_runtime 0 ?w1' of
      (cloned, w2) \<Rightarrow> cloned = Return 1 \<and> sources w2 5"
  proof (cases "clone example_runtime 0 ?w1'")
    case (Pair cloned w2)
    with source_modified_by_constructor
        [where src = 5 and rt = example_runtime and w = ?w1' and this = 0,
          THEN conjunct2, THEN conjunct1]
    show ?thesis
      by (simp add: r truthy_def)
  qed
  have m0: "\<not> sources example_world 5" by (simp add: example_world_def)
  have m3: "case clone example_runtime 0 example_stream_world of
      (a, w1) \<Rightarrow>
        (case settle a (emit_all 0 w1) of
           (cloned, w2) \<Rightarrow> cloned = Return 1 \<and> sources w2 5)"
    using source_modified_by_constructor
        [where src = 5 and rt = example_runtime and w = example_stream_world and this = 0
           and s = 0 and cs = "[[1, 2], [3]]", THEN conjunct2, THEN conjunct2]
      example_stream_world_facts
    by (simp split: prod.splits)
  show ?thesis using m0 m1 m2 m3 example_stream_world_facts(7) by (simp add: c)
qed

subsection \<open>The first read after construction\<close>

text \<open>
  Claim C3. After a construction with a path and exactly one content parameter, the first
  \<^verbatim>\<open>getBuffer()\<close> yields the supplied content: the buffer itself; the bytes that
  \<^verbatim>\<open>Buffer.from(string, "utf8")\<close> gives for the string; for an unread stream that emits the
  chunks \<open>cs\<close> and ends, the concatenation of \<open>cs\<close> once the stream has emitted its events;
  for a factory, the concatenation of the chunks of the stream made by one invocation of
  the factory (the invocation count goes up by one).
\<close>

theorem first_getBuffer_returns_content:
  "truthy_string (p_path p) \<Longrightarrow>
   (p_buffer p = Some b \<and> p_string p = None \<and> p_createStream p = None \<and>
    p_stream p = None \<longrightarrow>
      (case constructor rt p w of
         (created, w1) \<Rightarrow>
           created = Inr (n_resources w) \<and>
           getBuffer (n_resources w) w1 = (Return b, w1))) \<and>
   (p_string p = Some str \<and> p_buffer p = None \<and> p_createStream p = None \<and>
    p_stream p = None \<longrightarrow>
      (case constructor rt p w of
         (created, w1) \<Rightarrow>
           created = Inr (n_resources w) \<and>
           getBuffer (n_resources w) w1 = (Return (buffer_from_utf8 rt str), w1))) \<and>
   (p_stream p = Some s \<and> p_buffer p = None \<and> p_string p = None \<and>
    p_createStream p = None \<and>
    streams w s = \<lparr>s_chunks = cs, s_ending = Ends, s_finished = False, s_listeners = []\<rparr>
    \<longrightarrow>
      (case constructor rt p w of
         (created, w1) \<Rightarrow>
           created = Inr (n_resources w) \<and>
           (case getBuffer (n_resources w) w1 of
              (a, w2) \<Rightarrow>
                fst (settle a (emit_all s w2)) = Return (concat cs)))) \<and>
   (p_createStream p = Some f \<and> p_buffer p = None \<and> p_string p = None \<and>
    p_stream p = None \<and> f_ending (factories w f) (f_calls (factories w f)) = Ends
    \<longrightarrow>
      (case constructor rt p w of
         (created, w1) \<Rightarrow>
           created = Inr (n_resources w) \<and>
           (case getBuffer (n_resources w) w1 of
              (a, w2) \<Rightarrow>
                fst (settle a (emit_all (n_streams w) w2)) =
                  Return (concat (f_chunks (factories w f) (f_calls (factories w f)))) \<and>
                f_calls (factories (emit_all (n_streams w) w2) f) =
                  Suc (f_calls (factories w f)))))"
proof (intro conjI impI)
  assume path: "truthy_string (p_path p)"
  let ?r = "n_resources w"
  let ?w1 = "constructed_world rt p w"
  {
    assume a: "p_buffer p = Some b \<and> p_string p = None \<and> p_createStream p = None \<and>
      p_stream p = None"
    then have "given_content p \<le> 1" by (simp add: given_content_def truthy_def)
    from single_content[OF this path, of rt w] a
    show "case constructor rt p w of
         (created, w1) \<Rightarrow>
           created = Inr (n_resources w) \<and>
           getBuffer (n_resources w) w1 = (Return b, w1)"
      by (simp add: getBuffer_def constructed_world_def new_resource_def truthy_def)
  }
  {
    assume a: "p_string p = Some str \<and> p_buffer p = None \<and> p_createStream p = None \<and>
      p_stream p = None"
    then have "given_content p \<le> 1" by (simp add: given_content_def truthy_def)
    from single_content[OF this path, of rt w] a
    show "case constructor rt p w of
         (created, w1) \<Rightarrow>
           created = Inr (n_resources w) \<and>
           getBuffer (n_resources w) w1 = (Return (buffer_from_utf8 rt str), w1)"
      by (simp add: getBuffer_def constructed_world_def new_resource_def truthy_def)
  }
  {
    assume a: "p_stream p = Some s \<and> p_buffer p = None \<and> p_string p = None \<and>
      p_createStream p = None \<and>
      streams w s = \<lparr>s_chunks = cs, s_ending = Ends, s_finished = False, s_listeners = []\<rparr>"
    then have "given_content p \<le> 1" by (simp add: given_content_def truthy_def)
    note c = single_content[OF this path, of rt w]
    have sb: "stream_backed ?r s cs ?w1"
      using a by (simp add: stream_backed_def constructed_world_def new_resource_def truthy_def)
    let ?w0 = "?w1\<lparr>n_promises := Suc (n_promises ?w1),
          resources := (resources ?w1)(?r := (resources ?w1 ?r)\<lparr>r_streamDrained := True\<rparr>)\<rparr>"
    have fin: "emit_all s (buffering_world ?r s (n_promises ?w1) [] cs ?w0) =
        buffered_world ?r s (n_promises ?w1) cs ?w0"
      using emit_all_buffering[of s ?r "n_promises ?w1" "[]" cs ?w0] by simp
    show "case constructor rt p w of
         (created, w1) \<Rightarrow>
           created = Inr (n_resources w) \<and>
           (case getBuffer (n_resources w) w1 of
              (a, w2) \<Rightarrow>
                fst (settle a (emit_all s w2)) = Return (concat cs))"
      by (simp add: c getBuffer_stream[OF sb] fin settle_buffered)
  }
  {
    assume a: "p_createStream p = Some f \<and> p_buffer p = None \<and> p_string p = None \<and>
      p_stream p = None \<and> f_ending (factories w f) (f_calls (factories w f)) = Ends"
    then have "given_content p \<le> 1" by (simp add: given_content_def truthy_def)
    note c = single_content[OF this path, of rt w]
    let ?fac = "factories w f"
    let ?s = "n_streams w"
    let ?w0 = "?w1\<lparr>n_promises := Suc (n_promises ?w1), n_streams := Suc (n_streams ?w1),
          factories := (factories ?w1)(f :=
            (factories ?w1 f)\<lparr>f_calls := Suc (f_calls (factories ?w1 f))\<rparr>)\<rparr>"
    have same: "factories ?w1 = factories w" "n_streams ?w1 = n_streams w"
      by (simp_all add: constructed_world_def)
    have r: "r_createStream (resources ?w1 ?r) = Some f"
      "\<not> r_streamDrained (resources ?w1 ?r)"
      "r_buffering (resources ?w1 ?r) = None"
      "r_buffer (resources ?w1 ?r) = None"
      "\<not> r_contentDrained (resources ?w1 ?r)"
      using a by (simp_all add: constructed_world_def new_resource_def truthy_def)
    have e: "f_ending (factories ?w1 f) (f_calls (factories ?w1 f)) = Ends"
      using a by (simp add: same)
    have g: "getBuffer ?r ?w1 =
        (Await (n_promises ?w1) (\<lambda>buffer w''. (Inr buffer, w'')),
         buffering_world ?r ?s (n_promises ?w1) [] (f_chunks ?fac (f_calls ?fac)) ?w0)"
      using start_factory[OF r(1,2,3) e] r
      by (simp add: getBuffer_def truthy_def same)
    have fin: "emit_all ?s
          (buffering_world ?r ?s (n_promises ?w1) [] (f_chunks ?fac (f_calls ?fac)) ?w0) =
        buffered_world ?r ?s (n_promises ?w1) (f_chunks ?fac (f_calls ?fac)) ?w0"
      using emit_all_buffering[of ?s ?r "n_promises ?w1" "[]" "f_chunks ?fac (f_calls ?fac)" ?w0]
      by simp
    show "case constructor rt p w of
         (created, w1) \<Rightarrow>
           created = Inr (n_resources w) \<and>
           (case getBuffer (n_resources w) w1 of
              (a, w2) \<Rightarrow>
                fst (settle a (emit_all (n_streams w) w2)) =
                  Return (concat (f_chunks (factories w f) (f_calls (factories w f)))) \<and>
                f_calls (factories (emit_all (n_streams w) w2) f) =
                  Suc (f_calls (factories w f)))"
      by (simp add: c g fin settle_buffered) (simp add: buffered_world_def same)
  }
qed

text \<open>
  Instances in the example world: a buffer, the string \<^verbatim>\<open>ab\<close>, the stream with the chunks
  \<open>[1, 2]\<close> and \<open>[3]\<close>, and a factory whose streams emit \<open>[8]\<close> and \<open>[9]\<close>.
\<close>

theorem first_getBuffer_returns_content_witness:
  "(case constructor example_runtime (example_params\<lparr>p_buffer := Some [1, 2]\<rparr>)
           example_world of
      (created, w1) \<Rightarrow> created = Inr 0 \<and> getBuffer 0 w1 = (Return [1, 2], w1)) \<and>
   (case constructor example_runtime (example_params\<lparr>p_string := Some ''ab''\<rparr>)
           example_world of
      (created, w1) \<Rightarrow> created = Inr 0 \<and> getBuffer 0 w1 = (Return [97, 98], w1)) \<and>
   (case constructor example_runtime (example_params\<lparr>p_stream := Some 0\<rparr>)
           example_world of
      (created, w1) \<Rightarrow>
        created = Inr 0 \<and>
        (case getBuffer 0 w1 of
           (a, w2) \<Rightarrow> fst (settle a (emit_all 0 w2)) = Return [1, 2, 3])) \<and>
   (case constructor example_runtime (example_params\<lparr>p_createStream := Some 0\<rparr>)
           example_world of
      (created, w1) \<Rightarrow>
        created = Inr 0 \<and>
        (case getBuffer 0 w1 of
           (a, w2) \<Rightarrow>
             fst (settle a (emit_all 3 w2)) = Return [8, 9] \<and>
             f_calls (factories (emit_all 3 w2) 0) = 1))"
proof -
  have p: "truthy_string (p_path (example_params\<lparr>p_buffer := Some [1, 2]\<rparr>))"
    "truthy_string (p_path (example_params\<lparr>p_string := Some ''ab''\<rparr>))"
    "truthy_string (p_path (example_params\<lparr>p_stream := Some 0\<rparr>))"
    "truthy_string (p_path (example_params\<lparr>p_createStream := Some 0\<rparr>))"
    by (simp_all add: example_params_def truthy_string_def)
  have w: "n_resources example_world = 0" "n_streams example_world = 3"
    "streams example_world 0 =
       \<lparr>s_chunks = [[1, 2], [3]], s_ending = Ends, s_finished = False, s_listeners = []\<rparr>"
    "factories example_world 0 =
       \<lparr>f_chunks = (\<lambda>n. [[8], [9]]), f_ending = (\<lambda>_. Ends), f_calls = 0\<rparr>"
    by (simp_all add: example_world_def)
  have e: "buffer_from_utf8 example_runtime ''ab'' = [97, 98]"
    by (simp add: example_runtime_def)
  have q: "p_buffer example_params = None" "p_string example_params = None"
    "p_stream example_params = None" "p_createStream example_params = None"
    by (simp_all add: example_params_def)
  show ?thesis
    using first_getBuffer_returns_content
        [OF p(1), where b = "[1, 2]" and rt = example_runtime and w = example_world,
          THEN conjunct1]
      first_getBuffer_returns_content
        [OF p(2), where str = "''ab''" and rt = example_runtime and w = example_world,
          THEN conjunct2, THEN conjunct1]
      first_getBuffer_returns_content
        [OF p(3), where s = 0 and cs = "[[1, 2], [3]]" and rt = example_runtime
           and w = example_world, THEN conjunct2, THEN conjunct2, THEN conjunct1]
      first_getBuffer_returns_content
        [OF p(4), where f = 0 and rt = example_runtime and w = example_world,
          THEN conjunct2, THEN conjunct2, THEN conjunct2]
    by (simp add: w e q)
qed

subsection \<open>The size\<close>




subsection \<open>Cloning\<close>

text \<open>
  Claim C6. Let \<open>this\<close> be a resource with a non-empty path. If it holds no stream,
  \<^verbatim>\<open>clone()\<close> returns a new resource at once; if it holds an unread stream that emits \<open>cs\<close>
  and ends, \<^verbatim>\<open>clone()\<close> returns the new resource once the stream has emitted its events. In
  both cases the new resource has the path, an equal \<^verbatim>\<open>statInfo\<close> (the deep copy of a value is
  the value) and the source handle of the original, no project and no collections
  (\<open>clone_of\<close>). Its content is the original's: the same factory, or the same buffer, or, for
  the stream, the buffer materialized from it, which \<^verbatim>\<open>getBuffer()\<close> on the clone returns
  although the original's stream has finished. The content is independent: \<^verbatim>\<open>setBuffer\<close> on
  either resource and \<^verbatim>\<open>getStream()\<close> on the original leave the other resource as it is.
\<close>

theorem clone_independent:
  "this < n_resources w \<Longrightarrow> r_path (resources w this) \<noteq> [] \<Longrightarrow>
   (r_stream (resources w this) = None \<longrightarrow>
      (case clone rt this w of
         (a, w') \<Rightarrow>
           a = Return (n_resources w) \<and>
           clone_of (resources w this) (resources w' (n_resources w)) \<and>
           r_createStream (resources w' (n_resources w)) = r_createStream (resources w this) \<and>
           r_buffer (resources w' (n_resources w)) =
             (if truthy (r_createStream (resources w this)) then None
              else r_buffer (resources w this)) \<and>
           resources w' this = resources w this \<and>
           resources (setBuffer this b w') (n_resources w) = resources w' (n_resources w) \<and>
           resources (setBuffer (n_resources w) b w') this = resources w' this \<and>
           resources (snd (getStream this w')) (n_resources w) =
             resources w' (n_resources w))) \<and>
   (stream_backed this s cs w \<longrightarrow>
      (case clone rt this w of
         (a, w1) \<Rightarrow>
           (case settle a (emit_all s w1) of
              (a', w') \<Rightarrow>
                a' = Return (n_resources w) \<and>
                clone_of (resources w this) (resources w' (n_resources w)) \<and>
                s_finished (streams w' s) \<and> r_stream (resources w' this) = None \<and>
                getBuffer (n_resources w) w' = (Return (concat cs), w') \<and>
                resources (setBuffer this b w') (n_resources w) =
                  resources w' (n_resources w) \<and>
                resources (setBuffer (n_resources w) b w') this = resources w' this \<and>
                resources (snd (getStream this w')) (n_resources w) =
                  resources w' (n_resources w))))"
proof (intro conjI impI)
  assume valid: "this < n_resources w" and path: "r_path (resources w this) \<noteq> []"
  then have ne: "n_resources w \<noteq> this" "this \<noteq> n_resources w" by simp_all
  {
    assume st: "r_stream (resources w this) = None"
    show "case clone rt this w of
         (a, w') \<Rightarrow>
           a = Return (n_resources w) \<and>
           clone_of (resources w this) (resources w' (n_resources w)) \<and>
           r_createStream (resources w' (n_resources w)) = r_createStream (resources w this) \<and>
           r_buffer (resources w' (n_resources w)) =
             (if truthy (r_createStream (resources w this)) then None
              else r_buffer (resources w this)) \<and>
           resources w' this = resources w this \<and>
           resources (setBuffer this b w') (n_resources w) = resources w' (n_resources w) \<and>
           resources (setBuffer (n_resources w) b w') this = resources w' this \<and>
           resources (snd (getStream this w')) (n_resources w) =
             resources w' (n_resources w)"
      using ne
      by (cases "r_createStream (resources w this)"; cases "r_buffer (resources w this)")
         (simp_all add: clone_now[OF st path] getStream_other setBuffer_other
            constructed_world_def new_resource_def clone_options_def clone_of_def truthy_def)
  }
  {
    assume sb: "stream_backed this s cs w"
    let ?c = "n_resources w"
    let ?w0 = "w\<lparr>n_promises := Suc (n_promises w),
                  resources := (resources w)(this :=
                    (resources w this)\<lparr>r_streamDrained := True\<rparr>)\<rparr>"
    let ?w' = "constructed_world rt (clone_options (resources w this) (Some (concat cs)))
             (buffered_world this s (n_promises w) cs ?w0)"
    have r: "resources ?w' ?c =
        new_resource rt (clone_options (resources w this) (Some (concat cs)))
          (buffered_world this s (n_promises w) cs ?w0)"
      by (simp add: constructed_world_def buffered_world_def)
    have f: "r_buffer (resources ?w' ?c) = Some (concat cs)"
      "\<not> r_contentDrained (resources ?w' ?c)"
      by (simp_all add: r new_resource_def) (simp_all add: clone_options_def truthy_def)
    have g: "getBuffer ?c ?w' = (Return (concat cs), ?w')"
      by (simp add: getBuffer_def f Let_def)
    have o: "clone_of (resources w this) (resources ?w' ?c)"
      by (simp add: r new_resource_def clone_of_def) (simp add: clone_options_def truthy_def)
    have t: "s_finished (streams ?w' s)" "r_stream (resources ?w' this) = None"
      using ne by (simp_all add: constructed_world_def buffered_world_def)
    from clone_stream[OF sb path, of rt]
    show "case clone rt this w of
         (a, w1) \<Rightarrow>
           (case settle a (emit_all s w1) of
              (a', w') \<Rightarrow>
                a' = Return (n_resources w) \<and>
                clone_of (resources w this) (resources w' (n_resources w)) \<and>
                s_finished (streams w' s) \<and> r_stream (resources w' this) = None \<and>
                getBuffer (n_resources w) w' = (Return (concat cs), w') \<and>
                resources (setBuffer this b w') (n_resources w) =
                  resources w' (n_resources w) \<and>
                resources (setBuffer (n_resources w) b w') this = resources w' this \<and>
                resources (snd (getStream this w')) (n_resources w) =
                  resources w' (n_resources w))"
      using ne g o t
      by (auto simp: getStream_other setBuffer_other split: prod.splits)
  }
qed

text \<open>
  Instances: a resource with a buffer, a project and one collection; and the resource on
  the example stream.
\<close>

theorem clone_independent_witness:
  "r_project (resources example_project_world 0) \<noteq> None \<and>
   r_collections (resources example_project_world 0) = [''outer''] \<and>
   (case clone example_runtime 0 example_project_world of
      (a, w') \<Rightarrow>
        a = Return 1 \<and> r_path (resources w' 1) = ''/a.js'' \<and>
        r_source (resources w' 1) = Some 5 \<and> r_buffer (resources w' 1) = Some [1, 2] \<and>
        r_project (resources w' 1) = None \<and> r_collections (resources w' 1) = []) \<and>
   (case clone example_runtime 0 example_stream_world of
      (a, w1) \<Rightarrow>
        (case settle a (emit_all 0 w1) of
           (a', w') \<Rightarrow>
             a' = Return 1 \<and> s_finished (streams w' 0) \<and>
             getBuffer 1 w' = (Return [1, 2, 3], w')))"
proof -
  have f: "n_resources example_project_world = 1"
    "r_path (resources example_project_world 0) = ''/a.js''"
    "r_stream (resources example_project_world 0) = None"
    "r_createStream (resources example_project_world 0) = None"
    "r_buffer (resources example_project_world 0) = Some [1, 2]"
    "r_source (resources example_project_world 0) = Some 5"
    "r_project (resources example_project_world 0) \<noteq> None"
    "r_collections (resources example_project_world 0) = [''outer'']"
    by (simp_all add: example_project_world_def pushCollection_def constructor_def
        conflicting_def truthy_def truthy_string_def Let_def example_source_params_def
        example_params_def example_world_def blank_def setBuffer_def)
  have a: "case clone example_runtime 0 example_project_world of
      (a, w') \<Rightarrow>
        a = Return 1 \<and> r_path (resources w' 1) = ''/a.js'' \<and>
        r_source (resources w' 1) = Some 5 \<and> r_buffer (resources w' 1) = Some [1, 2] \<and>
        r_project (resources w' 1) = None \<and> r_collections (resources w' 1) = []"
    using clone_independent[where w = example_project_world and this = 0
        and rt = example_runtime and b = "[]", THEN conjunct1]
    by (simp add: f clone_of_def truthy_def split: prod.splits)
  have b: "case clone example_runtime 0 example_stream_world of
      (a, w1) \<Rightarrow>
        (case settle a (emit_all 0 w1) of
           (a', w') \<Rightarrow>
             a' = Return 1 \<and> s_finished (streams w' 0) \<and>
             getBuffer 1 w' = (Return [1, 2, 3], w'))"
    using clone_independent[where w = example_stream_world and this = 0
        and rt = example_runtime and s = 0 and cs = "[[1, 2], [3]]" and b = "[]",
        THEN conjunct2]
      example_stream_world_facts
    by (simp split: prod.splits)
  show ?thesis using a b f(7,8) by simp
qed

subsection \<open>The drained state\<close>

text \<open>
  What claim C1 says holds from one call to the next: a \<^verbatim>\<open>getStream()\<close> that returns a
  stream leaves the content flagged as drained; while it is flagged, \<^verbatim>\<open>getBuffer()\<close>,
  \<^verbatim>\<open>getString()\<close> and \<^verbatim>\<open>getStream()\<close> fail with the content-drained error and change nothing;
  \<^verbatim>\<open>setBuffer\<close>, \<^verbatim>\<open>setString\<close> and \<^verbatim>\<open>setStream\<close> reset both flags, and \<^verbatim>\<open>getStream()\<close> succeeds
  right after them.
\<close>

lemma getStream_marks_drained:
  "getStream this w = (Inr s, w') \<Longrightarrow> r_contentDrained (resources w' this)"
  by (auto simp: getStream_def Let_def split: if_splits option.splits prod.splits sum.splits)

lemma drained_reads_fail:
  assumes "r_contentDrained (resources w this)"
  shows "getBuffer this w = (Throw (ContentDrained (r_path (resources w this))), w)"
    and "getString rt this w = (Throw (ContentDrained (r_path (resources w this))), w)"
    and "getStream this w = (Inl (ContentDrained (r_path (resources w this))), w)"
  using assms by (simp_all add: getBuffer_def getString_def getStream_def)

lemma setters_reset:
  "\<not> r_contentDrained (resources (setBuffer this b w) this)"
  "\<not> r_streamDrained (resources (setBuffer this b w) this)"
  "\<not> r_contentDrained (resources (setString rt this str w) this)"
  "\<not> r_streamDrained (resources (setString rt this str w) this)"
  "\<not> r_contentDrained (resources (setStream this arg w) this)"
  "\<not> r_streamDrained (resources (setStream this arg w) this)"
  by (cases arg; simp add: setBuffer_world setString_def setStream_def Let_def)+

lemma getStream_after_set:
  "fst (getStream this (setBuffer this b w)) = Inr (n_streams w)"
  "fst (getStream this (setString rt this str w)) = Inr (n_streams w)"
  "fst (getStream this (setStream this (AStream s) w)) = Inr s"
  "fst (getStream this (setStream this (AFunction f) w)) = Inr (n_streams w)"
  by (simp_all add: getStream_def priv_getStream_def setBuffer_world setString_def
      setStream_def truthy_def Let_def split: option.split)

text \<open>
  Claim C1, where the code departs from it. A resource is made from a factory;
  \<^verbatim>\<open>getBuffer()\<close> is called and not awaited, so the materialization of the factory's first
  stream (address 3) is pending; \<^verbatim>\<open>getStream()\<close> then returns the factory's second stream
  (address 4) and flags the content as drained, and a \<^verbatim>\<open>getBuffer()\<close> at this point fails as
  claimed. When the first stream ends, its \<^verbatim>\<open>end\<close> handler calls \<^verbatim>\<open>setBuffer\<close>, which resets the
  flag: without any call of \<^verbatim>\<open>setBuffer\<close>, \<^verbatim>\<open>setString\<close> or \<^verbatim>\<open>setStream\<close> by the caller, the
  next \<^verbatim>\<open>getBuffer()\<close> returns the content and the next \<^verbatim>\<open>getStream()\<close> returns a stream.
\<close>

theorem drained_flag_reset_by_pending_read:
  "(case constructor example_runtime (example_params\<lparr>p_createStream := Some 0\<rparr>)
           example_world of
      (created, w1) \<Rightarrow>
        (case getBuffer 0 w1 of
           (a, w2) \<Rightarrow>
             (case getStream 0 w2 of
                (st, w3) \<Rightarrow>
                  created = Inr 0 \<and> st = Inr 4 \<and>
                  r_contentDrained (resources w3 0) \<and>
                  fst (getBuffer 0 w3) = Throw (ContentDrained ''/a.js'') \<and>
                  \<not> r_contentDrained (resources (emit_all 3 w3) 0) \<and>
                  fst (getBuffer 0 (emit_all 3 w3)) = Return [8, 9] \<and>
                  fst (getStream 0 (emit_all 3 w3)) = Inr 5)))"
  by (simp add: constructor_def conflicting_def truthy_def truthy_string_def Let_def
      example_params_def example_world_def example_runtime_def blank_def
      getBuffer_def getStream_def priv_getStream_def priv_getBufferFromStream_def
      emit_all_def emit_def on_data_def on_end_def setBuffer_def resolve_def)

subsection \<open>A stream that fails\<close>

text \<open>
  Claim C4, where the code departs from it. A resource is made from the stream at address
  1, which emits one chunk and then an error. After \<^verbatim>\<open>getBuffer()\<close> and the stream's events
  the promise is rejected with the stream's error and no buffer is installed, as claimed;
  but \<^verbatim>\<open>this._buffering\<close> still holds the rejected promise (only the \<^verbatim>\<open>end\<close> handler clears
  it). After \<^verbatim>\<open>setStream\<close> with the unread stream at address 2, \<^verbatim>\<open>getBuffer()\<close> returns the
  wait for that old promise and changes nothing: the new stream gets no reader, and the
  read fails with the old error even after the new stream has emitted all its events.
\<close>

theorem failed_read_keeps_token:
  "(case constructor example_runtime (example_params\<lparr>p_stream := Some 1\<rparr>)
           example_world of
      (created, w1) \<Rightarrow>
        (case getBuffer 0 w1 of
           (a, w2) \<Rightarrow>
             created = Inr 0 \<and>
             promises (emit_all 1 w2) 0 = Rejected (StreamError 7) \<and>
             fst (settle a (emit_all 1 w2)) = Throw (StreamError 7) \<and>
             r_buffer (resources (emit_all 1 w2) 0) = None \<and>
             r_buffering (resources (emit_all 1 w2) 0) = Some 0 \<and>
             (case getBuffer 0 (setStream 0 (AStream 2) (emit_all 1 w2)) of
                (a', w3) \<Rightarrow>
                  w3 = setStream 0 (AStream 2) (emit_all 1 w2) \<and>
                  r_stream (resources w3 0) = Some 2 \<and>
                  s_listeners (streams w3 2) = [] \<and>
                  fst (settle a' (emit_all 2 w3)) = Throw (StreamError 7))))"
  by (simp add: constructor_def conflicting_def truthy_def truthy_string_def Let_def
      example_params_def example_world_def example_runtime_def blank_def
      getBuffer_def priv_getStream_def priv_getBufferFromStream_def setStream_def
      emit_all_def emit_def on_data_def on_error_def reject_def settle_def)

end
